theory Spec2Isabelle
  imports Complex_Main
begin

section \<open>JavaScript values as produced by \<^verbatim>\<open>JSON.parse\<close>\<close>

text \<open>
  The processing Lambda works on dynamically typed data: the request body, the Bedrock
  response body and the JSON object embedded in the model's answer are all results of
  \<^verbatim>\<open>JSON.parse\<close>. A JavaScript string is represented by an Isabelle string that holds
  its UTF-16 code units, each written in UTF-8 (code units below 128 are single
  characters, so the braces, quotes and property names the program looks at are the
  characters one expects). A number is the exact decimal value of its literal; the
  rounding of that value to a binary64 double is not represented. The value
  \<^verbatim>\<open>undefined\<close>, which only a property read can produce, is \<open>None\<close> of \<open>json option\<close>.
\<close>

datatype json =
    JNull
  | JBool bool
  | JNum rat
  | JStr string
  | JArr "json list"
  | JObj "(string \<times> json) list"

datatype js_error = SyntaxError | TypeError | ServiceError

subsection \<open>Lexical structure of JSON text\<close>

datatype token =
    LBrace | RBrace | LBrack | RBrack | Colon | Comma
  | TStr string | TNum rat | TTrue | TFalse | TNull

text \<open>Where the scanner is inside a number literal
  \<^verbatim>\<open>-? (0 | [1-9][0-9]*) (. [0-9]+)? ([eE] [+-]? [0-9]+)?\<close>.\<close>

datatype numpos = NMinus | NZero | NInt | NDot | NFrac | NE | NESign | NExp

record numacc =
  negative :: bool
  mantissa :: nat
  fracDigits :: nat
  expNegative :: bool
  expDigits :: nat

datatype lstate =
    LDefault
  | LString string
  | LEscape string
  | LUnicode string nat nat
  | LLiteral string token
  | LNumber numpos numacc

definition is_ws :: "char \<Rightarrow> bool" where
  "is_ws c = (c = CHR 0x20 \<or> c = CHR 0x09 \<or> c = CHR 0x0A \<or> c = CHR 0x0D)"

definition is_digit :: "char \<Rightarrow> bool" where
  "is_digit c = (48 \<le> (of_char c :: nat) \<and> (of_char c :: nat) \<le> 57)"

definition digit_val :: "char \<Rightarrow> nat" where
  "digit_val c = of_char c - 48"

definition hex_val :: "char \<Rightarrow> nat option" where
  "hex_val c =
     (let n = (of_char c :: nat) in
      if 48 \<le> n \<and> n \<le> 57 then Some (n - 48)
      else if 65 \<le> n \<and> n \<le> 70 then Some (n - 55)
      else if 97 \<le> n \<and> n \<le> 102 then Some (n - 87)
      else None)"

text \<open>One UTF-16 code unit written in UTF-8.\<close>

definition code_unit :: "nat \<Rightarrow> string" where
  "code_unit n =
     (if n < 128 then [char_of n]
      else if n < 2048 then [char_of (192 + n div 64), char_of (128 + n mod 64)]
      else [char_of (224 + n div 4096), char_of (128 + (n div 64) mod 64),
            char_of (128 + n mod 64)])"

definition num_value :: "numacc \<Rightarrow> rat" where
  "num_value a =
     (let m = (if negative a then - of_nat (mantissa a) else of_nat (mantissa a)) :: rat in
      if expNegative a then m / 10 ^ (expDigits a + fracDigits a)
      else if fracDigits a \<le> expDigits a then m * 10 ^ (expDigits a - fracDigits a)
      else m / 10 ^ (fracDigits a - expDigits a))"

definition num_start :: "bool \<Rightarrow> nat \<Rightarrow> numacc" where
  "num_start neg d =
     \<lparr>negative = neg, mantissa = d, fracDigits = 0, expNegative = False, expDigits = 0\<rparr>"

text \<open>The scanner between tokens: what a character starts.\<close>

definition lex_default :: "char \<Rightarrow> (token list \<times> lstate) option" where
  "lex_default c =
     (if is_ws c then Some ([], LDefault)
      else if c = CHR ''{'' then Some ([LBrace], LDefault)
      else if c = CHR ''}'' then Some ([RBrace], LDefault)
      else if c = CHR ''['' then Some ([LBrack], LDefault)
      else if c = CHR '']'' then Some ([RBrack], LDefault)
      else if c = CHR '':'' then Some ([Colon], LDefault)
      else if c = CHR '','' then Some ([Comma], LDefault)
      else if c = CHR 0x22 then Some ([], LString [])
      else if c = CHR ''t'' then Some ([], LLiteral ''rue'' TTrue)
      else if c = CHR ''f'' then Some ([], LLiteral ''alse'' TFalse)
      else if c = CHR ''n'' then Some ([], LLiteral ''ull'' TNull)
      else if c = CHR ''-'' then Some ([], LNumber NMinus (num_start True 0))
      else if c = CHR ''0'' then Some ([], LNumber NZero (num_start False 0))
      else if is_digit c then Some ([], LNumber NInt (num_start False (digit_val c)))
      else None)"

text \<open>A number literal ends at the first character that cannot continue it; that
  character is then scanned as the start of the next token.\<close>

definition num_finish :: "numacc \<Rightarrow> char \<Rightarrow> (token list \<times> lstate) option" where
  "num_finish a c =
     (case lex_default c of
        None \<Rightarrow> None
      | Some (ts, st) \<Rightarrow> Some (TNum (num_value a) # ts, st))"

definition after_int :: "numacc \<Rightarrow> char \<Rightarrow> (token list \<times> lstate) option" where
  "after_int a c =
     (if c = CHR ''.'' then Some ([], LNumber NDot a)
      else if c = CHR ''e'' \<or> c = CHR ''E'' then Some ([], LNumber NE a)
      else num_finish a c)"

definition lex_number :: "numpos \<Rightarrow> numacc \<Rightarrow> char \<Rightarrow> (token list \<times> lstate) option" where
  "lex_number p a c =
     (case p of
        NMinus \<Rightarrow>
          (if c = CHR ''0'' then Some ([], LNumber NZero a)
           else if is_digit c then Some ([], LNumber NInt (a\<lparr>mantissa := digit_val c\<rparr>))
           else None)
      | NZero \<Rightarrow> after_int a c
      | NInt \<Rightarrow>
          (if is_digit c
           then Some ([], LNumber NInt (a\<lparr>mantissa := 10 * mantissa a + digit_val c\<rparr>))
           else after_int a c)
      | NDot \<Rightarrow>
          (if is_digit c
           then Some ([], LNumber NFrac
                  (a\<lparr>mantissa := 10 * mantissa a + digit_val c, fracDigits := 1\<rparr>))
           else None)
      | NFrac \<Rightarrow>
          (if is_digit c
           then Some ([], LNumber NFrac
                  (a\<lparr>mantissa := 10 * mantissa a + digit_val c,
                     fracDigits := fracDigits a + 1\<rparr>))
           else if c = CHR ''e'' \<or> c = CHR ''E'' then Some ([], LNumber NE a)
           else num_finish a c)
      | NE \<Rightarrow>
          (if c = CHR ''+'' then Some ([], LNumber NESign a)
           else if c = CHR ''-'' then Some ([], LNumber NESign (a\<lparr>expNegative := True\<rparr>))
           else if is_digit c then Some ([], LNumber NExp (a\<lparr>expDigits := digit_val c\<rparr>))
           else None)
      | NESign \<Rightarrow>
          (if is_digit c then Some ([], LNumber NExp (a\<lparr>expDigits := digit_val c\<rparr>))
           else None)
      | NExp \<Rightarrow>
          (if is_digit c
           then Some ([], LNumber NExp (a\<lparr>expDigits := 10 * expDigits a + digit_val c\<rparr>))
           else num_finish a c))"

definition lex_escape :: "string \<Rightarrow> char \<Rightarrow> (token list \<times> lstate) option" where
  "lex_escape acc c =
     (if c = CHR 0x22 \<or> c = CHR 0x5C \<or> c = CHR ''/'' then Some ([], LString (acc @ [c]))
      else if c = CHR ''b'' then Some ([], LString (acc @ [CHR 0x08]))
      else if c = CHR ''f'' then Some ([], LString (acc @ [CHR 0x0C]))
      else if c = CHR ''n'' then Some ([], LString (acc @ [CHR 0x0A]))
      else if c = CHR ''r'' then Some ([], LString (acc @ [CHR 0x0D]))
      else if c = CHR ''t'' then Some ([], LString (acc @ [CHR 0x09]))
      else if c = CHR ''u'' then Some ([], LUnicode acc 0 0)
      else None)"

definition lex_step :: "lstate \<Rightarrow> char \<Rightarrow> (token list \<times> lstate) option" where
  "lex_step st c =
     (case st of
        LDefault \<Rightarrow> lex_default c
      | LString acc \<Rightarrow>
          (if c = CHR 0x22 then Some ([TStr acc], LDefault)
           else if c = CHR 0x5C then Some ([], LEscape acc)
           else if (of_char c :: nat) < 32 then None
           else Some ([], LString (acc @ [c])))
      | LEscape acc \<Rightarrow> lex_escape acc c
      | LUnicode acc n k \<Rightarrow>
          (case hex_val c of
             None \<Rightarrow> None
           | Some h \<Rightarrow>
               (if k = 3 then Some ([], LString (acc @ code_unit (16 * n + h)))
                else Some ([], LUnicode acc (16 * n + h) (k + 1))))
      | LLiteral rest t \<Rightarrow>
          (case rest of
             [] \<Rightarrow> None
           | r # rs \<Rightarrow>
               (if c \<noteq> r then None
                else if rs = [] then Some ([t], LDefault)
                else Some ([], LLiteral rs t)))
      | LNumber p a \<Rightarrow> lex_number p a c)"

text \<open>At the end of the text only a finished token may be pending.\<close>

definition lex_end :: "lstate \<Rightarrow> token list option" where
  "lex_end st =
     (case st of
        LDefault \<Rightarrow> Some []
      | LNumber p a \<Rightarrow>
          (if p = NZero \<or> p = NInt \<or> p = NFrac \<or> p = NExp then Some [TNum (num_value a)]
           else None)
      | _ \<Rightarrow> None)"

fun lex :: "lstate \<Rightarrow> string \<Rightarrow> token list option" where
  "lex st [] = lex_end st"
| "lex st (c # cs) =
     (case lex_step st c of
        None \<Rightarrow> None
      | Some (ts, st') \<Rightarrow>
          (case lex st' cs of None \<Rightarrow> None | Some us \<Rightarrow> Some (ts @ us)))"

subsection \<open>Grammar of JSON values\<close>

text \<open>A frame is an array or object that is still open; an object frame remembers the
  property name whose value is being read.\<close>

datatype frame =
    InArr "json list"
  | InObj "(string \<times> json) list" "string option"

datatype expect =
    EValue | EValueOrClose | EKeyOrClose | EKey | EColon | ECommaOrClose | EDone json

type_synonym pstate = "frame list \<times> expect"

fun push_value :: "json \<Rightarrow> frame list \<Rightarrow> pstate option" where
  "push_value v [] = Some ([], EDone v)"
| "push_value v (InArr xs # fs) = Some (InArr (xs @ [v]) # fs, ECommaOrClose)"
| "push_value v (InObj ms (Some k) # fs) = Some (InObj (ms @ [(k, v)]) None # fs, ECommaOrClose)"
| "push_value v (InObj ms None # fs) = None"

fun close_array :: "frame list \<Rightarrow> pstate option" where
  "close_array (InArr xs # fs) = push_value (JArr xs) fs"
| "close_array _ = None"

fun close_object :: "frame list \<Rightarrow> pstate option" where
  "close_object (InObj ms None # fs) = push_value (JObj ms) fs"
| "close_object _ = None"

fun start_value :: "token \<Rightarrow> frame list \<Rightarrow> pstate option" where
  "start_value TNull fs = push_value JNull fs"
| "start_value TTrue fs = push_value (JBool True) fs"
| "start_value TFalse fs = push_value (JBool False) fs"
| "start_value (TNum q) fs = push_value (JNum q) fs"
| "start_value (TStr s) fs = push_value (JStr s) fs"
| "start_value LBrack fs = Some (InArr [] # fs, EValueOrClose)"
| "start_value LBrace fs = Some (InObj [] None # fs, EKeyOrClose)"
| "start_value _ fs = None"

fun read_key :: "token \<Rightarrow> frame list \<Rightarrow> pstate option" where
  "read_key (TStr k) (InObj ms None # fs) = Some (InObj ms (Some k) # fs, EColon)"
| "read_key _ _ = None"

fun after_comma :: "frame list \<Rightarrow> pstate option" where
  "after_comma (InArr xs # fs) = Some (InArr xs # fs, EValue)"
| "after_comma (InObj ms None # fs) = Some (InObj ms None # fs, EKey)"
| "after_comma _ = None"

fun parse_step :: "pstate \<Rightarrow> token \<Rightarrow> pstate option" where
  "parse_step (fs, EValue) t = start_value t fs"
| "parse_step (fs, EValueOrClose) t = (if t = RBrack then close_array fs else start_value t fs)"
| "parse_step (fs, EKeyOrClose) t = (if t = RBrace then close_object fs else read_key t fs)"
| "parse_step (fs, EKey) t = read_key t fs"
| "parse_step (fs, EColon) t = (if t = Colon then Some (fs, EValue) else None)"
| "parse_step (fs, ECommaOrClose) t =
     (if t = Comma then after_comma fs
      else if t = RBrack then close_array fs
      else if t = RBrace then close_object fs
      else None)"
| "parse_step (fs, EDone v) t = None"

fun parse_tokens :: "pstate \<Rightarrow> token list \<Rightarrow> json option" where
  "parse_tokens (fs, e) [] = (case e of EDone v \<Rightarrow> (if fs = [] then Some v else None) | _ \<Rightarrow> None)"
| "parse_tokens st (t # ts) =
     (case parse_step st t of None \<Rightarrow> None | Some st' \<Rightarrow> parse_tokens st' ts)"

text \<open>\<^verbatim>\<open>JSON.parse(text)\<close>: \<open>None\<close> is the thrown SyntaxError.\<close>

definition JSON_parse :: "string \<Rightarrow> json option" where
  "JSON_parse text =
     (case lex LDefault text of
        None \<Rightarrow> None
      | Some ts \<Rightarrow> parse_tokens ([], EValue) ts)"

section \<open>JavaScript operations used by the processing Lambda\<close>

text \<open>Truthiness, as tested by \<^verbatim>\<open>!x\<close> and \<^verbatim>\<open>x || d\<close>: \<^verbatim>\<open>null\<close>, \<^verbatim>\<open>false\<close>,
  \<^verbatim>\<open>0\<close> and the empty string are falsy, every object and array is truthy.\<close>

fun js_truthy :: "json \<Rightarrow> bool" where
  "js_truthy JNull = False"
| "js_truthy (JBool b) = b"
| "js_truthy (JNum q) = (q \<noteq> 0)"
| "js_truthy (JStr s) = (s \<noteq> [])"
| "js_truthy (JArr xs) = True"
| "js_truthy (JObj ms) = True"

text \<open>\<^verbatim>\<open>v || d\<close> for a value read from a property (\<open>None\<close> is \<^verbatim>\<open>undefined\<close>).\<close>

definition or_default :: "json option \<Rightarrow> json \<Rightarrow> json" where
  "or_default v d = (case v of None \<Rightarrow> d | Some j \<Rightarrow> if js_truthy j then j else d)"

text \<open>An own property of a parsed object; a repeated name keeps its last value.\<close>

definition own_property :: "(string \<times> json) list \<Rightarrow> string \<Rightarrow> json option" where
  "own_property ms k = map_of (rev ms) k"

text \<open>\<^verbatim>\<open>v.k\<close> for the property names the program reads (\<^verbatim>\<open>documentId\<close>,
  \<^verbatim>\<open>content\<close>, \<^verbatim>\<open>text\<close> and the six section names), none of which is a member of a
  built-in prototype: reading from \<^verbatim>\<open>null\<close> throws, reading from a string, number,
  boolean or array gives \<^verbatim>\<open>undefined\<close>.\<close>

fun get_prop :: "json \<Rightarrow> string \<Rightarrow> js_error + json option" where
  "get_prop JNull k = Inl TypeError"
| "get_prop (JObj ms) k = Inr (own_property ms k)"
| "get_prop v k = Inr None"

fun member :: "json option \<Rightarrow> string \<Rightarrow> js_error + json option" where
  "member None k = Inl TypeError"
| "member (Some v) k = get_prop v k"

text \<open>The first UTF-16 code unit of a string, for \<^verbatim>\<open>s[0]\<close>.\<close>

definition first_code_unit :: "string \<Rightarrow> string" where
  "first_code_unit s =
     (case s of
        [] \<Rightarrow> []
      | c # cs \<Rightarrow>
          (if (of_char c :: nat) < 128 then [c]
           else if (of_char c :: nat) < 224 then take 2 s
           else take 3 s))"

text \<open>\<^verbatim>\<open>v[0]\<close>.\<close>

fun index0 :: "json option \<Rightarrow> js_error + json option" where
  "index0 None = Inl TypeError"
| "index0 (Some JNull) = Inl TypeError"
| "index0 (Some (JArr xs)) = Inr (case xs of [] \<Rightarrow> None | x # _ \<Rightarrow> Some x)"
| "index0 (Some (JStr s)) = Inr (if s = [] then None else Some (JStr (first_code_unit s)))"
| "index0 (Some (JObj ms)) = Inr (own_property ms ''0'')"
| "index0 (Some v) = Inr None"

subsection \<open>The regular expression \<^verbatim>\<open>/\{[\s\S]*\}/\<close>\<close>

text \<open>\<^verbatim>\<open>[\s\S]*\}\<close> matched against the text that follows an opening brace: the star
  first takes the next character and tries the rest; only when that fails does it stop
  and try the closing brace here.\<close>

fun greedy_to_brace :: "string \<Rightarrow> string option" where
  "greedy_to_brace [] = None"
| "greedy_to_brace (c # cs) =
     (case greedy_to_brace cs of
        Some m \<Rightarrow> Some (c # m)
      | None \<Rightarrow> if c = CHR ''}'' then Some [c] else None)"

text \<open>The match is tried at each position from the left; the result is element 0 of the
  match array, \<open>None\<close> is \<^verbatim>\<open>null\<close>.\<close>

fun regex_match :: "string \<Rightarrow> string option" where
  "regex_match [] = None"
| "regex_match (c # cs) =
     (if c = CHR ''{''
      then (case greedy_to_brace cs of
              Some m \<Rightarrow> Some (c # m)
            | None \<Rightarrow> regex_match cs)
      else regex_match cs)"

text \<open>\<^verbatim>\<open>analysisText.match(...)\<close>: only a string has a callable \<^verbatim>\<open>match\<close>.\<close>

fun string_match :: "json option \<Rightarrow> js_error + string option" where
  "string_match (Some (JStr s)) = Inr (regex_match s)"
| "string_match v = Inl TypeError"

text \<open>The extraction rule as the specification words it: from the first opening
  brace, count nesting depth and stop at the brace that closes it.\<close>

fun spec_scan_depth :: "nat \<Rightarrow> string \<Rightarrow> string option" where
  "spec_scan_depth d [] = None"
| "spec_scan_depth d (c # cs) =
     (if c = CHR ''{'' then map_option ((#) c) (spec_scan_depth (Suc d) cs)
      else if c = CHR ''}'' then
        (if d \<le> 1 then Some [c] else map_option ((#) c) (spec_scan_depth (d - 1) cs))
      else map_option ((#) c) (spec_scan_depth d cs))"

definition spec_brace_depth_match :: "string \<Rightarrow> string option" where
  "spec_brace_depth_match text =
     (case dropWhile (\<lambda>c. c \<noteq> CHR ''{'') text of
        [] \<Rightarrow> None
      | c # cs \<Rightarrow> map_option ((#) c) (spec_scan_depth 1 cs))"

section \<open>The analysis result\<close>

text \<open>\<^verbatim>\<open>ContractAnalysis\<close> of \<^verbatim>\<open>types/index.ts\<close>. The TypeScript types are erased at
  run time, so each section holds whatever value the expression on the right of the
  object literal produced.\<close>

record ContractAnalysis =
  documentId :: string
  keyTerms :: json
  riskAssessment :: json
  clauseAnalysis :: json
  complianceCheck :: json
  executiveSummary :: json
  confidenceScore :: json
  processedAt :: string

definition default_riskAssessment :: json where
  "default_riskAssessment =
     JObj [(''overallRisk'', JStr ''medium''), (''risks'', JArr []), (''totalScore'', JNum 50)]"

definition default_complianceCheck :: json where
  "default_complianceCheck =
     JObj [(''overallCompliance'', JNum 70), (''missingClauses'', JArr []),
           (''nonStandardClauses'', JArr []), (''recommendations'', JArr [])]"

definition default_executiveSummary :: json where
  "default_executiveSummary =
     JObj [(''overview'', JStr ''Analysis completed''), (''keyHighlights'', JArr []),
           (''majorConcerns'', JArr []), (''recommendation'', JStr ''Review recommended'')]"

text \<open>The object literal returned when the embedded JSON parsed (lines 175-184).\<close>

definition map_parsed :: "string \<Rightarrow> json \<Rightarrow> js_error + ContractAnalysis" where
  "map_parsed now parsedAnalysis =
     (case get_prop parsedAnalysis ''keyTerms'' of Inl e \<Rightarrow> Inl e | Inr kt \<Rightarrow>
      case get_prop parsedAnalysis ''riskAssessment'' of Inl e \<Rightarrow> Inl e | Inr ra \<Rightarrow>
      case get_prop parsedAnalysis ''clauseAnalysis'' of Inl e \<Rightarrow> Inl e | Inr ca \<Rightarrow>
      case get_prop parsedAnalysis ''complianceCheck'' of Inl e \<Rightarrow> Inl e | Inr cc \<Rightarrow>
      case get_prop parsedAnalysis ''executiveSummary'' of Inl e \<Rightarrow> Inl e | Inr es \<Rightarrow>
      case get_prop parsedAnalysis ''confidenceScore'' of Inl e \<Rightarrow> Inl e | Inr cs \<Rightarrow>
        Inr \<lparr>documentId = [],
             keyTerms = or_default kt (JArr []),
             riskAssessment = or_default ra default_riskAssessment,
             clauseAnalysis = or_default ca (JArr []),
             complianceCheck = or_default cc default_complianceCheck,
             executiveSummary = or_default es default_executiveSummary,
             confidenceScore = or_default cs (JNum 75),
             processedAt = now\<rparr>)"

text \<open>The fallback object literal (lines 191-200).\<close>

definition fallback_analysis :: "string \<Rightarrow> ContractAnalysis" where
  "fallback_analysis now =
     \<lparr>documentId = [],
      keyTerms = JArr [JObj [(''type'', JStr ''other''), (''value'', JStr ''Analysis completed''),
                             (''confidence'', JNum 50), (''location'', JStr ''Document'')]],
      riskAssessment =
        JObj [(''overallRisk'', JStr ''medium''),
              (''risks'', JArr [JObj [(''category'', JStr ''General''),
                 (''description'', JStr ''Document processed but detailed analysis unavailable''),
                 (''severity'', JStr ''medium''),
                 (''recommendation'', JStr ''Manual review recommended''),
                 (''confidence'', JNum 50)]]),
              (''totalScore'', JNum 50)],
      clauseAnalysis = JArr [JObj [(''clauseType'', JStr ''General''),
                                   (''content'', JStr ''Document processed''),
                                   (''isStandard'', JBool True),
                                   (''unusualAspects'', JArr []),
                                   (''recommendation'', JStr ''Manual review recommended'')]],
      complianceCheck =
        JObj [(''overallCompliance'', JNum 50), (''missingClauses'', JArr []),
              (''nonStandardClauses'', JArr []),
              (''recommendations'', JArr [JStr ''Manual review recommended''])],
      executiveSummary =
        JObj [(''overview'', JStr ''Document processed successfully''),
              (''keyHighlights'', JArr [JStr ''Text extraction completed'']),
              (''majorConcerns'', JArr [JStr ''Detailed analysis unavailable'']),
              (''recommendation'', JStr ''Manual review recommended'')],
      confidenceScore = JNum 50,
      processedAt = now\<rparr>"

text \<open>\<^verbatim>\<open>responseBody.content[0].text\<close> (line 169).\<close>

definition analysisText_of :: "json \<Rightarrow> js_error + json option" where
  "analysisText_of responseBody =
     (case get_prop responseBody ''content'' of Inl e \<Rightarrow> Inl e | Inr content \<Rightarrow>
      case index0 content of Inl e \<Rightarrow> Inl e | Inr first \<Rightarrow>
        member first ''text'')"

text \<open>The body of the \<^verbatim>\<open>try\<close> (lines 168-185). \<open>Inl\<close> is a thrown exception,
  \<open>Inr (Some a)\<close> the \<^verbatim>\<open>return\<close> inside the \<^verbatim>\<open>if\<close>, \<open>Inr None\<close> leaving the block
  with no match.\<close>

definition analysis_try :: "string \<Rightarrow> json \<Rightarrow> js_error + ContractAnalysis option" where
  "analysis_try now responseBody =
     (case analysisText_of responseBody of Inl e \<Rightarrow> Inl e | Inr analysisText \<Rightarrow>
      case string_match analysisText of Inl e \<Rightarrow> Inl e | Inr jsonMatch \<Rightarrow>
      case jsonMatch of
        None \<Rightarrow> Inr None
      | Some m \<Rightarrow>
          (case JSON_parse m of
             None \<Rightarrow> Inl SyntaxError
           | Some parsedAnalysis \<Rightarrow>
               (case map_parsed now parsedAnalysis of
                  Inl e \<Rightarrow> Inl e
                | Inr a \<Rightarrow> Inr (Some a))))"

text \<open>The response interpreter: the \<^verbatim>\<open>try\<close>, its \<^verbatim>\<open>catch\<close>, which only logs, and
  the fallback that follows both (lines 167-200). The result type keeps a place for an
  exception leaving the function.\<close>

definition interpret_response :: "string \<Rightarrow> json \<Rightarrow> js_error + ContractAnalysis" where
  "interpret_response now responseBody =
     (case analysis_try now responseBody of
        Inr (Some a) \<Rightarrow> Inr a
      | Inr None \<Rightarrow> Inr (fallback_analysis now)
      | Inl parseError \<Rightarrow> Inr (fallback_analysis now))"

text \<open>A response body whose first content segment carries the given text.\<close>

definition response_with_text :: "string \<Rightarrow> json" where
  "response_with_text text = JObj [(''content'', JArr [JObj [(''text'', JStr text)]])]"

section \<open>The processing Lambda\<close>

subsection \<open>Documents, requests and responses\<close>

text \<open>An item of the documents table: the attributes of \<^verbatim>\<open>DocumentMetadata\<close> written by
  the upload Lambda, and \<^verbatim>\<open>analysis\<close> and \<^verbatim>\<open>processedAt\<close> written here. The partition
  key \<^verbatim>\<open>id\<close> is the key of the table; any other attribute may be missing.\<close>

record item =
  fileName :: "string option"
  fileSize :: "nat option"
  uploadedAt :: "string option"
  status :: "string option"
  s3Key :: "string option"
  contentType :: "string option"
  analysis :: "ContractAnalysis option"
  itemProcessedAt :: "string option"

type_synonym table = "string \<rightharpoonup> item"

definition empty_item :: item where
  "empty_item =
     \<lparr>fileName = None, fileSize = None, uploadedAt = None, status = None, s3Key = None,
      contentType = None, analysis = None, itemProcessedAt = None\<rparr>"

record block =
  BlockType :: "string option"
  Text :: "string option"

text \<open>\<^verbatim>\<open>APIResponse<T>\<close> and the proxy result. \<open>body\<close> is the value handed to
  \<^verbatim>\<open>JSON.stringify\<close>; the headers are the same constant on every path.\<close>

record APIResponse =
  success :: bool
  data :: "ContractAnalysis option"
  error :: "string option"

record response =
  statusCode :: nat
  body :: APIResponse

record event =
  eventBody :: "string option"

definition failure :: "nat \<Rightarrow> string \<Rightarrow> response" where
  "failure code msg =
     \<lparr>statusCode = code, body = \<lparr>success = False, data = None, error = Some msg\<rparr>\<rparr>"

subsection \<open>The services the Lambda calls\<close>

text \<open>What each awaited call does is decided outside the program. \<open>Inl\<close> is a rejected
  promise. \<open>s3_object\<close> is \<^verbatim>\<open>GetObjectCommand\<close> followed by \<^verbatim>\<open>transformToString()\<close>
  (UTF-8) for the given key, \<open>textract_blocks\<close> the \<^verbatim>\<open>Blocks\<close> of
  \<^verbatim>\<open>DetectDocumentTextCommand\<close>, \<open>bedrock_body\<close> the decoded body of the model
  response for the prompt built from the given contract text. The two clock readings
  are those of the interpreter and of the final write.\<close>

record env =
  get_fails :: bool
  s3_object :: "string option \<Rightarrow> js_error + string"
  textract_blocks :: "string option \<Rightarrow> js_error + block list option"
  bedrock_body :: "string \<Rightarrow> js_error + string"
  update_completed_fails :: bool
  update_failed_fails :: bool
  now_interpret :: string
  now_persist :: string

datatype update = SetCompleted ContractAnalysis string | SetFailed

datatype call =
    DynamoGet json
  | S3GetObject "string option"
  | TextractDetect "string option"
  | BedrockInvoke string
  | DynamoUpdate json update

text \<open>The table's partition key is declared with type STRING, so a request whose key
  is not a string is rejected by the service.\<close>

definition dynamo_get :: "env \<Rightarrow> table \<Rightarrow> json \<Rightarrow> js_error + item option" where
  "dynamo_get e tbl key =
     (if get_fails e then Inl ServiceError
      else case key of JStr k \<Rightarrow> Inr (tbl k) | _ \<Rightarrow> Inl ServiceError)"

text \<open>\<^verbatim>\<open>SET\<close> changes the named attributes only and creates the item when the key
  is new.\<close>

fun apply_update :: "update \<Rightarrow> item \<Rightarrow> item" where
  "apply_update (SetCompleted a t) it =
     it\<lparr>status := Some ''completed'', analysis := Some a, itemProcessedAt := Some t\<rparr>"
| "apply_update SetFailed it = it\<lparr>status := Some ''failed''\<rparr>"

definition dynamo_update :: "bool \<Rightarrow> table \<Rightarrow> json \<Rightarrow> update \<Rightarrow> js_error + table" where
  "dynamo_update fails tbl key u =
     (if fails then Inl ServiceError
      else case key of
        JStr k \<Rightarrow>
          Inr (tbl(k \<mapsto> apply_update u (case tbl k of None \<Rightarrow> empty_item | Some it \<Rightarrow> it)))
      | _ \<Rightarrow> Inl ServiceError)"

subsection \<open>Text extraction (lines 50-74)\<close>

text \<open>\<^verbatim>\<open>Array.prototype.join\<close> writes an \<^verbatim>\<open>undefined\<close> element as the empty string.\<close>

fun join_lines :: "string option list \<Rightarrow> string" where
  "join_lines [] = []"
| "join_lines [x] = (case x of None \<Rightarrow> [] | Some s \<Rightarrow> s)"
| "join_lines (x # y # zs) =
     (case x of None \<Rightarrow> [] | Some s \<Rightarrow> s) @ [CHR 0x0A] @ join_lines (y # zs)"

definition lines_text :: "block list option \<Rightarrow> string" where
  "lines_text blocks =
     (case blocks of
        None \<Rightarrow> []
      | Some bs \<Rightarrow>
          (let joined = join_lines (map Text (filter (\<lambda>b. BlockType b = Some ''LINE'') bs))
           in if joined = [] then [] else joined))"

definition extract_text :: "env \<Rightarrow> item \<Rightarrow> (js_error + string) \<times> call list" where
  "extract_text e document =
     (if contentType document = Some ''text/plain''
      then (s3_object e (s3Key document), [S3GetObject (s3Key document)])
      else (case textract_blocks e (s3Key document) of
              Inl err \<Rightarrow> (Inl err, [TextractDetect (s3Key document)])
            | Inr blocks \<Rightarrow> (Inr (lines_text blocks), [TextractDetect (s3Key document)])))"

subsection \<open>Model invocation and interpretation (lines 134-201)\<close>

definition analyzeContractWithBedrock :: "env \<Rightarrow> string \<Rightarrow> js_error + ContractAnalysis" where
  "analyzeContractWithBedrock e text =
     (case bedrock_body e text of
        Inl err \<Rightarrow> Inl err
      | Inr raw \<Rightarrow>
          (case JSON_parse raw of
             None \<Rightarrow> Inl SyntaxError
           | Some responseBody \<Rightarrow> interpret_response (now_interpret e) responseBody))"

subsection \<open>The handler (lines 15-131)\<close>

type_synonym outcome = "(js_error + response) \<times> table \<times> call list"

text \<open>\<^verbatim>\<open>event.body || '{}'\<close>.\<close>

definition body_or_default :: "string option \<Rightarrow> string" where
  "body_or_default b = (case b of None \<Rightarrow> ''{}'' | Some s \<Rightarrow> if s = [] then ''{}'' else s)"

definition ok_response :: "ContractAnalysis \<Rightarrow> response" where
  "ok_response a = \<lparr>statusCode = 200, body = \<lparr>success = True, data = Some a, error = None\<rparr>\<rparr>"

text \<open>Lines 30-103, once a truthy \<^verbatim>\<open>documentId\<close> has been read.\<close>

definition process_document :: "env \<Rightarrow> table \<Rightarrow> json \<Rightarrow> outcome" where
  "process_document e tbl docId =
     (case dynamo_get e tbl docId of
        Inl err \<Rightarrow> (Inl err, tbl, [DynamoGet docId])
      | Inr None \<Rightarrow> (Inr (failure 404 ''Document not found''), tbl, [DynamoGet docId])
      | Inr (Some document) \<Rightarrow>
          (case extract_text e document of
             (Inl err, cs) \<Rightarrow> (Inl err, tbl, DynamoGet docId # cs)
           | (Inr extractedText, cs) \<Rightarrow>
               (case analyzeContractWithBedrock e extractedText of
                  Inl err \<Rightarrow> (Inl err, tbl, DynamoGet docId # cs @ [BedrockInvoke extractedText])
                | Inr a \<Rightarrow>
                    (let u = SetCompleted a (now_persist e);
                         calls = DynamoGet docId # cs @
                                 [BedrockInvoke extractedText, DynamoUpdate docId u]
                     in case dynamo_update (update_completed_fails e) tbl docId u of
                          Inl err \<Rightarrow> (Inl err, tbl, calls)
                        | Inr tbl' \<Rightarrow> (Inr (ok_response a), tbl', calls)))))"

text \<open>The body of the \<^verbatim>\<open>try\<close> (lines 17-103).\<close>

definition handler_try :: "env \<Rightarrow> table \<Rightarrow> event \<Rightarrow> outcome" where
  "handler_try e tbl ev =
     (case JSON_parse (body_or_default (eventBody ev)) of
        None \<Rightarrow> (Inl SyntaxError, tbl, [])
      | Some parsed \<Rightarrow>
          (case get_prop parsed ''documentId'' of
             Inl err \<Rightarrow> (Inl err, tbl, [])
           | Inr None \<Rightarrow> (Inr (failure 400 ''Document ID is required''), tbl, [])
           | Inr (Some docId) \<Rightarrow>
               (if \<not> js_truthy docId
                then (Inr (failure 400 ''Document ID is required''), tbl, [])
                else process_document e tbl docId)))"

text \<open>The \<^verbatim>\<open>catch\<close> (lines 105-130), entered with the table and the calls made so
  far.\<close>

definition handler_catch :: "env \<Rightarrow> table \<Rightarrow> call list \<Rightarrow> event \<Rightarrow> outcome" where
  "handler_catch e tbl cs ev =
     (case eventBody ev of
        None \<Rightarrow> (Inr (failure 500 ''Processing failed''), tbl, cs)
      | Some b \<Rightarrow>
          (if b = [] then (Inr (failure 500 ''Processing failed''), tbl, cs)
           else case JSON_parse b of
             None \<Rightarrow> (Inl SyntaxError, tbl, cs)
           | Some parsed \<Rightarrow>
               (case get_prop parsed ''documentId'' of
                  Inl err \<Rightarrow> (Inl err, tbl, cs)
                | Inr None \<Rightarrow> (Inr (failure 500 ''Processing failed''), tbl, cs)
                | Inr (Some docId) \<Rightarrow>
                    (if js_truthy docId
                     then (case dynamo_update (update_failed_fails e) tbl docId SetFailed of
                             Inl err \<Rightarrow> (Inl err, tbl, cs @ [DynamoUpdate docId SetFailed])
                           | Inr tbl' \<Rightarrow>
                               (Inr (failure 500 ''Processing failed''), tbl',
                                cs @ [DynamoUpdate docId SetFailed]))
                     else (Inr (failure 500 ''Processing failed''), tbl, cs)))))"

text \<open>The handler. \<open>Inl\<close> in the first component is an exception that leaves the
  handler: the caller gets no response object from it.\<close>

definition handler :: "env \<Rightarrow> table \<Rightarrow> event \<Rightarrow> outcome" where
  "handler e tbl ev =
     (case handler_try e tbl ev of
        (Inr r, tbl', cs) \<Rightarrow> (Inr r, tbl', cs)
      | (Inl err, tbl', cs) \<Rightarrow> handler_catch e tbl' cs ev)"

section \<open>The declared shape of an analysis result\<close>

text \<open>The interfaces of \<^verbatim>\<open>types/index.ts\<close> as run-time checks on a value, with the
  range 0 to 100 that the prompt asks for on every confidence and score.\<close>

definition field :: "json \<Rightarrow> string \<Rightarrow> json option" where
  "field v k = (case v of JObj ms \<Rightarrow> own_property ms k | _ \<Rightarrow> None)"

definition is_string :: "json option \<Rightarrow> bool" where
  "is_string v = (case v of Some (JStr s) \<Rightarrow> True | _ \<Rightarrow> False)"

definition is_boolean :: "json option \<Rightarrow> bool" where
  "is_boolean v = (case v of Some (JBool b) \<Rightarrow> True | _ \<Rightarrow> False)"

definition is_score :: "json option \<Rightarrow> bool" where
  "is_score v = (case v of Some (JNum q) \<Rightarrow> 0 \<le> q \<and> q \<le> 100 | _ \<Rightarrow> False)"

definition one_of :: "string list \<Rightarrow> json option \<Rightarrow> bool" where
  "one_of names v = (case v of Some (JStr s) \<Rightarrow> s \<in> set names | _ \<Rightarrow> False)"

definition is_array_of :: "(json \<Rightarrow> bool) \<Rightarrow> json option \<Rightarrow> bool" where
  "is_array_of p v = (case v of Some (JArr xs) \<Rightarrow> list_all p xs | _ \<Rightarrow> False)"

definition term_types :: "string list" where
  "term_types = [''party'', ''date'', ''amount'', ''payment_term'', ''obligation'', ''other'']"

definition risk_levels :: "string list" where
  "risk_levels = [''low'', ''medium'', ''high'', ''critical'']"

definition is_KeyTerm :: "json \<Rightarrow> bool" where
  "is_KeyTerm v =
     (one_of term_types (field v ''type'') \<and> is_string (field v ''value'') \<and>
      is_score (field v ''confidence'') \<and> is_string (field v ''location''))"

definition is_Risk :: "json \<Rightarrow> bool" where
  "is_Risk v =
     (is_string (field v ''category'') \<and> is_string (field v ''description'') \<and>
      one_of risk_levels (field v ''severity'') \<and> is_string (field v ''recommendation'') \<and>
      is_score (field v ''confidence''))"

definition is_RiskAssessment :: "json \<Rightarrow> bool" where
  "is_RiskAssessment v =
     (one_of risk_levels (field v ''overallRisk'') \<and> is_array_of is_Risk (field v ''risks'') \<and>
      is_score (field v ''totalScore''))"

definition is_ClauseAnalysis :: "json \<Rightarrow> bool" where
  "is_ClauseAnalysis v =
     (is_string (field v ''clauseType'') \<and> is_string (field v ''content'') \<and>
      is_boolean (field v ''isStandard'') \<and>
      is_array_of (\<lambda>x. is_string (Some x)) (field v ''unusualAspects'') \<and>
      is_string (field v ''recommendation''))"

definition is_ComplianceResult :: "json \<Rightarrow> bool" where
  "is_ComplianceResult v =
     (is_score (field v ''overallCompliance'') \<and>
      is_array_of (\<lambda>x. is_string (Some x)) (field v ''missingClauses'') \<and>
      is_array_of (\<lambda>x. is_string (Some x)) (field v ''nonStandardClauses'') \<and>
      is_array_of (\<lambda>x. is_string (Some x)) (field v ''recommendations''))"

definition is_ExecutiveSummary :: "json \<Rightarrow> bool" where
  "is_ExecutiveSummary v =
     (is_string (field v ''overview'') \<and>
      is_array_of (\<lambda>x. is_string (Some x)) (field v ''keyHighlights'') \<and>
      is_array_of (\<lambda>x. is_string (Some x)) (field v ''majorConcerns'') \<and>
      is_string (field v ''recommendation''))"

definition is_ContractAnalysis :: "ContractAnalysis \<Rightarrow> bool" where
  "is_ContractAnalysis a =
     (is_array_of is_KeyTerm (Some (keyTerms a)) \<and>
      is_RiskAssessment (riskAssessment a) \<and>
      is_array_of is_ClauseAnalysis (Some (clauseAnalysis a)) \<and>
      is_ComplianceResult (complianceCheck a) \<and>
      is_ExecutiveSummary (executiveSummary a) \<and>
      is_score (Some (confidenceScore a)))"

section \<open>A sample run\<close>

text \<open>A freshly uploaded plain-text document, a scanned one, and services that answer:
  the stored text is \<^verbatim>\<open>Hello\<close>, the OCR service returns a page block, two line blocks
  and a word block, and the model wraps an empty JSON object in prose.\<close>

definition sample_document :: item where
  "sample_document =
     \<lparr>fileName = Some ''nda.txt'', fileSize = Some 5, uploadedAt = Some ''t0'',
      status = Some ''processing'', s3Key = Some ''documents/doc-1/nda.txt'',
      contentType = Some ''text/plain'', analysis = None, itemProcessedAt = None\<rparr>"

definition sample_scan :: item where
  "sample_scan =
     sample_document\<lparr>fileName := Some ''nda.pdf'', s3Key := Some ''documents/doc-2/nda.pdf'',
                      contentType := Some ''application/pdf''\<rparr>"

definition sample_blocks :: "block list" where
  "sample_blocks =
     [\<lparr>BlockType = Some ''PAGE'', Text = None\<rparr>,
      \<lparr>BlockType = Some ''LINE'', Text = Some ''This Agreement''\<rparr>,
      \<lparr>BlockType = Some ''WORD'', Text = Some ''This''\<rparr>,
      \<lparr>BlockType = Some ''LINE'', Text = Some ''is made''\<rparr>]"

definition sample_env :: env where
  \<open>sample_env =
     \<lparr>get_fails = False,
      s3_object = (\<lambda>k. Inr ''Hello''),
      textract_blocks = (\<lambda>k. Inr (Some sample_blocks)),
      bedrock_body = (\<lambda>t. Inr ''{"content":[{"type":"text","text":"Result: {} done"}]}''),
      update_completed_fails = False,
      update_failed_fails = False,
      now_interpret = ''t1'',
      now_persist = ''t2''\<rparr>\<close>

definition sample_table :: table where
  "sample_table = [''doc-1'' \<mapsto> sample_document, ''doc-2'' \<mapsto> sample_scan]"

definition sample_event :: event where
  \<open>sample_event = \<lparr>eventBody = Some ''{"documentId":"doc-1"}''\<rparr>\<close>

text \<open>The result when the model's JSON object has none of the six sections.\<close>

definition all_defaults :: "string \<Rightarrow> ContractAnalysis" where
  "all_defaults now =
     \<lparr>documentId = [], keyTerms = JArr [], riskAssessment = default_riskAssessment,
      clauseAnalysis = JArr [], complianceCheck = default_complianceCheck,
      executiveSummary = default_executiveSummary, confidenceScore = JNum 75,
      processedAt = now\<rparr>"

section \<open>Sample model answers and requests\<close>

text \<open>A model answer that wraps a JSON object with two of the six sections in prose,
  the object's text, and its members.\<close>

definition sample_answer :: string where
  \<open>sample_answer =
     ''Analysis: {"keyTerms":[{"type":"party","value":"Acme"}],"confidenceScore":88} Done.''\<close>

definition sample_object :: string where
  \<open>sample_object = ''{"keyTerms":[{"type":"party","value":"Acme"}],"confidenceScore":88}''\<close>

definition sample_members :: "(string \<times> json) list" where
  "sample_members =
     [(''keyTerms'', JArr [JObj [(''type'', JStr ''party''), (''value'', JStr ''Acme'')]]),
      (''confidenceScore'', JNum 88)]"

text \<open>A request for a document that was never uploaded.\<close>

definition unknown_event :: event where
  \<open>unknown_event = \<lparr>eventBody = Some ''{"documentId":"doc-9"}''\<rparr>\<close>

section \<open>Failing services and a completed document\<close>

text \<open>The sample services with the model endpoint down, with the read of the table
  rejected, and with the final write rejected; the sample document as the sample run
  leaves it.\<close>

definition model_down_env :: env where
  "model_down_env = sample_env\<lparr>bedrock_body := (\<lambda>t. Inl ServiceError)\<rparr>"

definition read_down_env :: env where
  "read_down_env = sample_env\<lparr>get_fails := True\<rparr>"

definition write_down_env :: env where
  "write_down_env = sample_env\<lparr>update_completed_fails := True\<rparr>"

definition completed_document :: item where
  "completed_document =
     sample_document\<lparr>status := Some ''completed'', analysis := Some (all_defaults ''t1''),
                      itemProcessedAt := Some ''t2''\<rparr>"

section \<open>Vocabulary of the statements\<close>

text \<open>The falsy values other than the number zero: \<^verbatim>\<open>undefined\<close> (the property is
  absent), \<^verbatim>\<open>null\<close>, \<^verbatim>\<open>false\<close> and the empty string.\<close>

definition falsy_not_zero :: "json option \<Rightarrow> bool" where
  "falsy_not_zero v =
     (v = None \<or> v = Some JNull \<or> v = Some (JBool False) \<or> v = Some (JStr []))"

text \<open>The text of a block as \<^verbatim>\<open>join\<close> writes it.\<close>

definition text_or_empty :: "string option \<Rightarrow> string" where
  "text_or_empty x = (case x of None \<Rightarrow> [] | Some s \<Rightarrow> s)"

section \<open>Facts about the interpreter\<close>

lemmas json_eval =
  JSON_parse_def lex_step_def lex_default_def lex_escape_def lex_number_def after_int_def
  num_finish_def num_value_def num_start_def lex_end_def is_ws_def is_digit_def digit_val_def

lemma map_parsed_object:
  "map_parsed now (JObj ms) =
     Inr \<lparr>documentId = [],
          keyTerms = or_default (own_property ms ''keyTerms'') (JArr []),
          riskAssessment = or_default (own_property ms ''riskAssessment'') default_riskAssessment,
          clauseAnalysis = or_default (own_property ms ''clauseAnalysis'') (JArr []),
          complianceCheck = or_default (own_property ms ''complianceCheck'') default_complianceCheck,
          executiveSummary = or_default (own_property ms ''executiveSummary'') default_executiveSummary,
          confidenceScore = or_default (own_property ms ''confidenceScore'') (JNum 75),
          processedAt = now\<rparr>"
  by (simp add: map_parsed_def)

lemma map_parsed_documentId: "map_parsed now p = Inr a \<Longrightarrow> documentId a = []"
  by (cases p) (auto simp: map_parsed_def)

lemma analysis_try_text:
  assumes "analysisText_of rb = Inr (Some (JStr raw))"
  shows "analysis_try now rb =
     (case regex_match raw of
        None \<Rightarrow> Inr None
      | Some m \<Rightarrow>
          (case JSON_parse m of
             None \<Rightarrow> Inl SyntaxError
           | Some p \<Rightarrow> (case map_parsed now p of Inl e \<Rightarrow> Inl e | Inr a \<Rightarrow> Inr (Some a))))"
  using assms by (simp add: analysis_try_def)

lemma response_with_text_text: "analysisText_of (response_with_text raw) = Inr (Some (JStr raw))"
  by (simp add: analysisText_of_def response_with_text_def own_property_def)

lemmas analysis_try_wrapped = analysis_try_text [OF response_with_text_text]

lemma interpret_response_total: "\<exists>a. interpret_response now rb = Inr a"
  by (simp add: interpret_response_def split: sum.splits option.splits)

lemma interpret_response_documentId:
  assumes "interpret_response now rb = Inr a"
  shows "documentId a = []"
proof (cases "analysis_try now rb")
  case (Inl e)
  with assms show ?thesis by (auto simp add: interpret_response_def fallback_analysis_def)
next
  case (Inr r)
  show ?thesis
  proof (cases r)
    case None
    with Inr assms show ?thesis by (auto simp add: interpret_response_def fallback_analysis_def)
  next
    case (Some b)
    with Inr assms have ab: "a = b" by (simp add: interpret_response_def)
    from Inr Some have "\<exists>p. map_parsed now p = Inr b"
      by (auto simp: analysis_try_def split: sum.splits option.splits)
    with ab show ?thesis using map_parsed_documentId by blast
  qed
qed

lemma analyze_documentId: "analyzeContractWithBedrock e text = Inr a \<Longrightarrow> documentId a = []"
  by (auto simp: analyzeContractWithBedrock_def interpret_response_documentId split: sum.splits option.splits)

lemma greedy_to_brace_last:
  "greedy_to_brace cs =
     (if CHR ''}'' \<in> set cs then Some (rev (dropWhile (\<lambda>c. c \<noteq> CHR ''}'') (rev cs))) else None)"
  by (induction cs) (auto simp: dropWhile_append)

lemma regex_match_closed:
  "regex_match raw =
     (let rest = dropWhile (\<lambda>c. c \<noteq> CHR ''{'') raw in
      if CHR ''}'' \<in> set rest
      then Some (rev (dropWhile (\<lambda>c. c \<noteq> CHR ''}'') (rev rest)))
      else None)"
proof (induction raw)
  case Nil
  show ?case by simp
next
  case (Cons c cs)
  show ?case
  proof (cases "c = CHR ''{''")
    case False
    with Cons show ?thesis by simp
  next
    case True
    have no: "CHR ''}'' \<notin> set cs \<Longrightarrow> regex_match cs = None"
      using Cons by (auto simp: Let_def dest: set_dropWhileD)
    show ?thesis using True no
      by (auto simp: greedy_to_brace_last dropWhile_append)
  qed
qed

lemma sample_answer_match: "regex_match sample_answer = Some sample_object"
  by (simp add: sample_answer_def sample_object_def)

lemma sample_object_parse: "JSON_parse sample_object = Some (JObj sample_members)"
  by (simp add: sample_object_def sample_members_def json_eval)

lemma or_default_truthy: "js_truthy v \<Longrightarrow> or_default (Some v) d = v"
  by (simp add: or_default_def)

lemma or_default_falsy: "falsy_not_zero v \<or> v = Some (JNum 0) \<Longrightarrow> or_default v d = d"
  by (auto simp: or_default_def falsy_not_zero_def)

lemma interpret_parsed_object:
  assumes "analysisText_of rb = Inr (Some (JStr raw))"
    and "regex_match raw = Some m" and "JSON_parse m = Some (JObj ms)"
  shows "interpret_response now rb =
     Inr \<lparr>documentId = [],
          keyTerms = or_default (own_property ms ''keyTerms'') (JArr []),
          riskAssessment = or_default (own_property ms ''riskAssessment'') default_riskAssessment,
          clauseAnalysis = or_default (own_property ms ''clauseAnalysis'') (JArr []),
          complianceCheck = or_default (own_property ms ''complianceCheck'') default_complianceCheck,
          executiveSummary = or_default (own_property ms ''executiveSummary'') default_executiveSummary,
          confidenceScore = or_default (own_property ms ''confidenceScore'') (JNum 75),
          processedAt = now\<rparr>"
  using assms by (simp add: interpret_response_def analysis_try_text map_parsed_object)

lemma defaults_conform: "is_ContractAnalysis (all_defaults now)"
  by (simp add: is_ContractAnalysis_def all_defaults_def is_array_of_def is_RiskAssessment_def
      is_ComplianceResult_def is_ExecutiveSummary_def is_score_def is_string_def one_of_def
      field_def own_property_def default_riskAssessment_def default_complianceCheck_def
      default_executiveSummary_def risk_levels_def)

lemma fallback_conforms: "is_ContractAnalysis (fallback_analysis now)"
  by (simp add: is_ContractAnalysis_def fallback_analysis_def is_array_of_def
      is_RiskAssessment_def is_ComplianceResult_def is_ExecutiveSummary_def is_KeyTerm_def
      is_Risk_def is_ClauseAnalysis_def is_score_def is_string_def is_boolean_def one_of_def
      field_def own_property_def risk_levels_def term_types_def)

lemma or_default_conforms:
  "P d \<Longrightarrow> P (or_default v d) \<longleftrightarrow> (\<forall>j. v = Some j \<and> js_truthy j \<longrightarrow> P j)"
  by (auto simp: or_default_def split: option.splits)

section \<open>Facts about the handler\<close>

lemma parse_empty_object: "JSON_parse ''{}'' = Some (JObj [])"
  by (simp add: JSON_parse_def lex_step_def lex_default_def is_ws_def lex_end_def)

lemma process_document_cases:
  assumes "process_document e tbl d = (res, t, cs)"
  shows "(t = tbl \<and> (\<exists>err. res = Inl err)) \<or>
         (t = tbl \<and> res = Inr (failure 404 ''Document not found'')) \<or>
         (\<exists>k doc txt a. d = JStr k \<and> tbl k = Some doc \<and> fst (extract_text e doc) = Inr txt \<and>
            analyzeContractWithBedrock e txt = Inr a \<and> res = Inr (ok_response a) \<and>
            t = tbl(k \<mapsto> apply_update (SetCompleted a (now_persist e)) doc))"
  using assms
  by (auto simp: process_document_def dynamo_get_def dynamo_update_def Let_def
           split: sum.splits option.splits prod.splits if_splits json.splits)

lemma handler_valid_request:
  assumes "JSON_parse (body_or_default (eventBody ev)) = Some parsed"
    and "get_prop parsed ''documentId'' = Inr (Some d)"
    and "js_truthy d"
  shows "handler e tbl ev =
     (case process_document e tbl d of
        (Inr r, t, cs) \<Rightarrow> (Inr r, t, cs)
      | (Inl err, t, cs) \<Rightarrow>
          (case dynamo_update (update_failed_fails e) t d SetFailed of
             Inl x \<Rightarrow> (Inl x, t, cs @ [DynamoUpdate d SetFailed])
           | Inr t' \<Rightarrow> (Inr (failure 500 ''Processing failed''), t', cs @ [DynamoUpdate d SetFailed])))"
proof -
  have "\<exists>b. eventBody ev = Some b \<and> b \<noteq> [] \<and> body_or_default (eventBody ev) = b"
    using assms parse_empty_object
    by (cases "eventBody ev") (auto simp: body_or_default_def own_property_def split: if_splits)
  then obtain b where b: "eventBody ev = Some b" "b \<noteq> []" "JSON_parse b = Some parsed"
    using assms(1) by auto
  show ?thesis
    using assms(2,3) b
    by (simp add: handler_def handler_try_def handler_catch_def body_or_default_def
             split: sum.splits prod.splits)
qed

lemma handler_invalid_request:
  assumes "\<not> (\<exists>parsed d. JSON_parse (body_or_default (eventBody ev)) = Some parsed \<and>
              get_prop parsed ''documentId'' = Inr (Some d) \<and> js_truthy d)"
  shows "snd (handler e tbl ev) = (tbl, [])"
proof (cases "eventBody ev")
  case None
  then show ?thesis
    by (simp add: handler_def handler_try_def handler_catch_def body_or_default_def parse_empty_object own_property_def)
next
  case (Some b)
  show ?thesis
  proof (cases "b = []")
    case True
    with Some show ?thesis
      by (simp add: handler_def handler_try_def handler_catch_def body_or_default_def parse_empty_object own_property_def)
  next
    case False
    then have bd: "body_or_default (Some b) = b" by (simp add: body_or_default_def)
    show ?thesis using assms Some False
      by (auto simp add: bd handler_def handler_try_def handler_catch_def
          split: option.splits sum.splits)
  qed
qed

subsection \<open>The sample run, evaluated\<close>

lemma sample_body_parse:
  \<open>JSON_parse ''{"content":[{"type":"text","text":"Result: {} done"}]}'' =
     Some (JObj [(''content'', JArr [JObj [(''type'', JStr ''text''), (''text'', JStr ''Result: {} done'')]])])\<close>
  by (simp add: json_eval)

lemma sample_event_parse:
  \<open>JSON_parse ''{"documentId":"doc-1"}'' = Some (JObj [(''documentId'', JStr ''doc-1'')])\<close>
  by (simp add: json_eval)

lemma sample_analysis:
  "analyzeContractWithBedrock sample_env txt = Inr (all_defaults ''t1'')"
  by (simp add: analyzeContractWithBedrock_def sample_env_def sample_body_parse
      interpret_response_def analysis_try_def analysisText_of_def own_property_def
      parse_empty_object
      map_parsed_def or_default_def all_defaults_def)

lemma sample_extract:
  "extract_text sample_env sample_document =
     (Inr ''Hello'', [S3GetObject (Some ''documents/doc-1/nda.txt'')])"
  by (simp add: extract_text_def sample_env_def sample_document_def)

lemma sample_run:
  "handler sample_env sample_table sample_event =
     (Inr (ok_response (all_defaults ''t1'')),
      sample_table(''doc-1'' \<mapsto> sample_document\<lparr>status := Some ''completed'',
         analysis := Some (all_defaults ''t1''), itemProcessedAt := Some ''t2''\<rparr>),
      [DynamoGet (JStr ''doc-1''), S3GetObject (Some ''documents/doc-1/nda.txt''),
       BedrockInvoke ''Hello'',
       DynamoUpdate (JStr ''doc-1'') (SetCompleted (all_defaults ''t1'') ''t2'')])"
proof -
  have p: "process_document sample_env sample_table (JStr ''doc-1'') =
     (Inr (ok_response (all_defaults ''t1'')),
      sample_table(''doc-1'' \<mapsto> sample_document\<lparr>status := Some ''completed'',
         analysis := Some (all_defaults ''t1''), itemProcessedAt := Some ''t2''\<rparr>),
      [DynamoGet (JStr ''doc-1''), S3GetObject (Some ''documents/doc-1/nda.txt''),
       BedrockInvoke ''Hello'',
       DynamoUpdate (JStr ''doc-1'') (SetCompleted (all_defaults ''t1'') ''t2'')])"
  proof -
    have g: "dynamo_get sample_env sample_table (JStr ''doc-1'') = Inr (Some sample_document)"
      by (simp add: dynamo_get_def sample_env_def sample_table_def)
    have u: "dynamo_update (update_completed_fails sample_env) sample_table (JStr ''doc-1'') upd =
        Inr (sample_table(''doc-1'' \<mapsto> apply_update upd sample_document))" for upd
      by (simp add: dynamo_update_def sample_env_def sample_table_def)
    show ?thesis
      by (simp add: process_document_def g u sample_extract sample_analysis Let_def)
         (simp add: sample_env_def)
  qed
  show ?thesis
    using handler_valid_request[of sample_event "JObj [(''documentId'', JStr ''doc-1'')]" "JStr ''doc-1''" sample_env sample_table]
    by (simp add: p sample_event_def body_or_default_def sample_event_parse own_property_def)
qed

lemma extract_text_calls:
  "snd (extract_text e doc) = [S3GetObject (s3Key doc)] \<or>
   snd (extract_text e doc) = [TextractDetect (s3Key doc)]"
  by (simp add: extract_text_def split: sum.splits)

lemma process_document_completed_calls:
  assumes "process_document e tbl d = (res, t, cs)"
    and "DynamoUpdate k (SetCompleted a ts) \<in> set cs"
  shows "\<exists>raw. analyzeContractWithBedrock e raw = Inr a"
proof (cases "dynamo_get e tbl d")
  case (Inl err)
  with assms show ?thesis by (auto simp add: process_document_def)
next
  case (Inr found)
  show ?thesis
  proof (cases found)
    case None
    with Inr assms show ?thesis by (auto simp add: process_document_def)
  next
    case (Some doc)
    obtain x ecs where ex: "extract_text e doc = (x, ecs)" by (cases "extract_text e doc")
    have ecs: "ecs = [S3GetObject (s3Key doc)] \<or> ecs = [TextractDetect (s3Key doc)]"
      using extract_text_calls[of e doc] ex by simp
    show ?thesis
      using assms Inr Some ex ecs
      by (auto simp add: process_document_def Let_def split: sum.splits)
  qed
qed

lemma handler_completed_calls:
  assumes "handler e tbl ev = (res, t, cs)"
    and "DynamoUpdate k (SetCompleted a ts) \<in> set cs"
  shows "\<exists>raw. analyzeContractWithBedrock e raw = Inr a"
proof (cases "\<exists>parsed d. JSON_parse (body_or_default (eventBody ev)) = Some parsed \<and>
              get_prop parsed ''documentId'' = Inr (Some d) \<and> js_truthy d")
  case False
  then have "snd (handler e tbl ev) = (tbl, [])" by (rule handler_invalid_request)
  with assms show ?thesis by simp
next
  case True
  then obtain parsed d where v: "JSON_parse (body_or_default (eventBody ev)) = Some parsed"
    "get_prop parsed ''documentId'' = Inr (Some d)" "js_truthy d" by blast
  obtain r0 t0 cs0 where p: "process_document e tbl d = (r0, t0, cs0)"
    by (cases "process_document e tbl d")
  have "DynamoUpdate k (SetCompleted a ts) \<in> set cs0"
    using assms handler_valid_request[OF v, of e tbl] p
    by (auto split: sum.splits)
  with p show ?thesis by (rule process_document_completed_calls)
qed

lemma handler_ok_response:
  assumes "handler e tbl ev = (Inr r, t, cs)" and "data (body r) = Some a"
  shows "\<exists>raw. analyzeContractWithBedrock e raw = Inr a"
proof (cases "\<exists>parsed d. JSON_parse (body_or_default (eventBody ev)) = Some parsed \<and>
              get_prop parsed ''documentId'' = Inr (Some d) \<and> js_truthy d")
  case False
  then show ?thesis using assms
    by (auto simp: handler_def handler_try_def handler_catch_def failure_def
        split: option.splits sum.splits if_splits)
next
  case True
  then obtain parsed d where v: "JSON_parse (body_or_default (eventBody ev)) = Some parsed"
    "get_prop parsed ''documentId'' = Inr (Some d)" "js_truthy d" by blast
  obtain r0 t0 cs0 where p: "process_document e tbl d = (r0, t0, cs0)"
    by (cases "process_document e tbl d")
  from process_document_cases[OF p] show ?thesis
    using assms handler_valid_request[OF v, of e tbl] p
    by (auto simp: failure_def ok_response_def split: sum.splits)
qed

lemma join_lines_terminated:
  "xs \<noteq> [] \<Longrightarrow>
   join_lines xs @ [CHR 0x0A] = concat (map (\<lambda>x. text_or_empty x @ [CHR 0x0A]) xs)"
  by (induction xs rule: join_lines.induct) (simp_all add: text_or_empty_def)

lemma unknown_event_parse:
  \<open>JSON_parse ''{"documentId":"doc-9"}'' = Some (JObj [(''documentId'', JStr ''doc-9'')])\<close>
  by (simp add: json_eval)

lemma unknown_event_valid:
  "JSON_parse (body_or_default (eventBody unknown_event)) =
     Some (JObj [(''documentId'', JStr ''doc-9'')])"
  "get_prop (JObj [(''documentId'', JStr ''doc-9'')]) ''documentId'' = Inr (Some (JStr ''doc-9''))"
  by (simp_all add: unknown_event_def body_or_default_def unknown_event_parse own_property_def)

lemma sample_event_valid:
  "JSON_parse (body_or_default (eventBody sample_event)) = Some (JObj [(''documentId'', JStr ''doc-1'')])"
  "get_prop (JObj [(''documentId'', JStr ''doc-1'')]) ''documentId'' = Inr (Some (JStr ''doc-1''))"
  by (simp_all add: sample_event_def body_or_default_def sample_event_parse own_property_def)

lemma process_document_failure:
  assumes "\<not> get_fails e" and "tbl k = Some doc"
    and "(\<exists>err. fst (extract_text e doc) = Inl err) \<or>
         (\<exists>t. fst (extract_text e doc) = Inr t \<and>
              ((\<exists>err. analyzeContractWithBedrock e t = Inl err) \<or>
               ((\<exists>a. analyzeContractWithBedrock e t = Inr a) \<and> update_completed_fails e)))"
  shows "\<exists>err cs. process_document e tbl (JStr k) = (Inl err, tbl, cs)"
proof -
  obtain x ecs where ex: "extract_text e doc = (x, ecs)" by (cases "extract_text e doc")
  show ?thesis
    using assms ex
    by (auto simp: process_document_def dynamo_get_def dynamo_update_def Let_def
        split: sum.splits)
qed

lemma model_down_extract:
  "fst (extract_text model_down_env sample_document) = Inr ''Hello''"
  by (simp add: extract_text_def model_down_env_def sample_env_def sample_document_def)

lemma handler_table_cases:
  assumes "handler e tbl ev = (res, tbl', cs)"
  shows "tbl' = tbl \<or>
    (\<exists>k doc a raw. tbl k = Some doc \<and> res = Inr (ok_response a) \<and>
        analyzeContractWithBedrock e raw = Inr a \<and>
        tbl' = tbl(k \<mapsto> apply_update (SetCompleted a (now_persist e)) doc)) \<or>
    (\<exists>k. res = Inr (failure 500 ''Processing failed'') \<and>
        tbl' = tbl(k \<mapsto> apply_update SetFailed
                    (case tbl k of None \<Rightarrow> empty_item | Some it \<Rightarrow> it)))"
proof (cases "\<exists>parsed d. JSON_parse (body_or_default (eventBody ev)) = Some parsed \<and>
              get_prop parsed ''documentId'' = Inr (Some d) \<and> js_truthy d")
  case False
  then have "snd (handler e tbl ev) = (tbl, [])" by (rule handler_invalid_request)
  with assms show ?thesis by simp
next
  case True
  then obtain parsed d where v: "JSON_parse (body_or_default (eventBody ev)) = Some parsed"
    "get_prop parsed ''documentId'' = Inr (Some d)" "js_truthy d" by blast
  obtain r0 t0 cs0 where p: "process_document e tbl d = (r0, t0, cs0)"
    by (cases "process_document e tbl d")
  have h: "handler e tbl ev =
     (case r0 of
        Inr r \<Rightarrow> (Inr r, t0, cs0)
      | Inl err \<Rightarrow>
          (case dynamo_update (update_failed_fails e) t0 d SetFailed of
             Inl x \<Rightarrow> (Inl x, t0, cs0 @ [DynamoUpdate d SetFailed])
           | Inr t' \<Rightarrow> (Inr (failure 500 ''Processing failed''), t', cs0 @ [DynamoUpdate d SetFailed])))"
    using handler_valid_request[OF v, of e tbl] p by (simp split: sum.splits)
  from process_document_cases[OF p]
  consider (thrown) err where "t0 = tbl" "r0 = Inl err"
    | (absent) "t0 = tbl" "r0 = Inr (failure 404 ''Document not found'')"
    | (stored) k doc raw a where "tbl k = Some doc" "analyzeContractWithBedrock e raw = Inr a"
        "r0 = Inr (ok_response a)"
        "t0 = tbl(k \<mapsto> apply_update (SetCompleted a (now_persist e)) doc)"
    by blast
  then show ?thesis
  proof cases
    case thrown
    show ?thesis
    proof (cases "dynamo_update (update_failed_fails e) tbl d SetFailed")
      case (Inl x)
      with thrown h assms show ?thesis by simp
    next
      case (Inr t')
      then obtain k where "t' = tbl(k \<mapsto> apply_update SetFailed
                    (case tbl k of None \<Rightarrow> empty_item | Some it \<Rightarrow> it))"
        by (auto simp: dynamo_update_def split: if_splits json.splits)
      with Inr thrown h assms show ?thesis by auto
    qed
  next
    case absent
    with h assms show ?thesis by simp
  next
    case stored
    with h assms have "res = Inr (ok_response a)"
      "tbl' = tbl(k \<mapsto> apply_update (SetCompleted a (now_persist e)) doc)" by simp_all
    with stored(1,2) show ?thesis by blast
  qed
qed

section \<open>C1: status and analysis of a record\<close>

text \<open>The claim says a record with status failed has no analysis, also after a failed
  re-invocation of a completed document. Re-invoking the completed sample document with
  the model endpoint down leaves status failed and the earlier analysis in place.\<close>

theorem failed_record_keeps_analysis:
  "(case handler model_down_env (sample_table(''doc-1'' \<mapsto> completed_document)) sample_event of
     (res, tbl', cs) \<Rightarrow>
        res = Inr (failure 500 ''Processing failed'') \<and>
        map_option status (tbl' ''doc-1'') = Some (Some ''failed'') \<and>
        map_option analysis (tbl' ''doc-1'') = Some (Some (all_defaults ''t1'')))"
proof -
  let ?tbl = "sample_table(''doc-1'' \<mapsto> completed_document)"
  have a: "\<not> get_fails model_down_env" "\<not> update_failed_fails model_down_env"
    by (simp_all add: model_down_env_def sample_env_def)
  have x: "extract_text model_down_env completed_document =
      (Inr ''Hello'', [S3GetObject (Some ''documents/doc-1/nda.txt'')])"
    by (simp add: extract_text_def model_down_env_def sample_env_def completed_document_def
        sample_document_def)
  have c: "analyzeContractWithBedrock model_down_env raw = Inl ServiceError" for raw
    by (simp add: analyzeContractWithBedrock_def model_down_env_def sample_env_def)
  have p: "process_document model_down_env ?tbl (JStr ''doc-1'') =
     (Inl ServiceError, ?tbl,
      [DynamoGet (JStr ''doc-1''), S3GetObject (Some ''documents/doc-1/nda.txt''),
       BedrockInvoke ''Hello''])"
    by (simp add: process_document_def dynamo_get_def a x c)
  have h: "handler model_down_env ?tbl sample_event =
     (Inr (failure 500 ''Processing failed''),
      ?tbl(''doc-1'' \<mapsto> completed_document\<lparr>status := Some ''failed''\<rparr>),
      [DynamoGet (JStr ''doc-1''), S3GetObject (Some ''documents/doc-1/nda.txt''),
       BedrockInvoke ''Hello'', DynamoUpdate (JStr ''doc-1'') SetFailed])"
    using handler_valid_request[OF sample_event_valid, of model_down_env ?tbl]
    by (simp add: p dynamo_update_def a)
  show ?thesis
    by (simp add: h) (simp add: completed_document_def)
qed

text \<open>C1, amended. After any invocation each record is either as it was before, or has
  status completed and as analysis the (non-null) result of the interpreter that was
  also returned to the caller, or has status failed and its analysis attribute exactly
  as before the invocation, so absent only if it was absent before.\<close>

theorem record_after_invocation:
  "case handler e tbl ev of
     (res, tbl', cs) \<Rightarrow>
       tbl' k = tbl k \<or>
       (\<exists>it a. tbl' k = Some it \<and> status it = Some ''completed'' \<and> analysis it = Some a \<and>
           res = Inr (ok_response a) \<and> (\<exists>raw. analyzeContractWithBedrock e raw = Inr a)) \<or>
       (\<exists>it. tbl' k = Some it \<and> status it = Some ''failed'' \<and>
           analysis it = (case tbl k of None \<Rightarrow> None | Some old \<Rightarrow> analysis old) \<and>
           res = Inr (failure 500 ''Processing failed''))"
proof -
  obtain res tbl' cs where h: "handler e tbl ev = (res, tbl', cs)"
    by (cases "handler e tbl ev")
  from handler_table_cases[OF h]
  consider (same) "tbl' = tbl"
    | (stored) k0 doc a raw where "tbl k0 = Some doc" "res = Inr (ok_response a)"
        "analyzeContractWithBedrock e raw = Inr a"
        "tbl' = tbl(k0 \<mapsto> apply_update (SetCompleted a (now_persist e)) doc)"
    | (failed) k0 where "res = Inr (failure 500 ''Processing failed'')"
        "tbl' = tbl(k0 \<mapsto> apply_update SetFailed
                    (case tbl k0 of None \<Rightarrow> empty_item | Some it \<Rightarrow> it))"
    by blast
  then have "tbl' k = tbl k \<or>
       (\<exists>it a. tbl' k = Some it \<and> status it = Some ''completed'' \<and> analysis it = Some a \<and>
           res = Inr (ok_response a) \<and> (\<exists>raw. analyzeContractWithBedrock e raw = Inr a)) \<or>
       (\<exists>it. tbl' k = Some it \<and> status it = Some ''failed'' \<and>
           analysis it = (case tbl k of None \<Rightarrow> None | Some old \<Rightarrow> analysis old) \<and>
           res = Inr (failure 500 ''Processing failed''))"
  proof cases
    case same
    then show ?thesis by simp
  next
    case stored
    show ?thesis
    proof (cases "k = k0")
      case True
      with stored show ?thesis by auto
    next
      case False
      with stored show ?thesis by simp
    qed
  next
    case failed
    show ?thesis
    proof (cases "k = k0")
      case True
      with failed show ?thesis by (cases "tbl k0") (simp_all add: empty_item_def)
    next
      case False
      with failed show ?thesis by simp
    qed
  qed
  then show ?thesis by (simp add: h)
qed

text \<open>The sample run completes \<^verbatim>\<open>doc-1\<close> and leaves \<^verbatim>\<open>doc-2\<close> alone.\<close>

theorem record_after_invocation_witness:
  "(case handler sample_env sample_table sample_event of
     (res, tbl', cs) \<Rightarrow>
        res = Inr (ok_response (all_defaults ''t1'')) \<and>
        tbl' ''doc-1'' = Some completed_document \<and>
        status completed_document = Some ''completed'' \<and>
        analysis completed_document = Some (all_defaults ''t1'') \<and>
        tbl' ''doc-2'' = sample_table ''doc-2'')"
  using record_after_invocation[where e = sample_env and tbl = sample_table
      and ev = sample_event and k = "''doc-1''"]
  by (simp add: sample_run completed_document_def)

section \<open>C2: the fallback analysis\<close>

text \<open>C2. When the model's text has no match for the brace pattern, or the matched
  substring does not parse, the interpreter returns exactly the fixed fallback analysis:
  one key term of type \<^verbatim>\<open>other\<close> with value \<^verbatim>\<open>Analysis completed\<close> and confidence 50,
  one medium risk with total score 50, one standard clause entry, compliance 50 with a
  manual-review recommendation, confidence score 50. No exception leaves the interpreter,
  whatever the response body is: an exception thrown inside the \<^verbatim>\<open>try\<close> also ends in the
  fallback.\<close>

theorem fallback_when_no_json:
  "(analysisText_of rb = Inr (Some (JStr raw)) \<and>
    (regex_match raw = None \<or> (\<exists>m. regex_match raw = Some m \<and> JSON_parse m = None)) \<longrightarrow>
      interpret_response now rb = Inr (fallback_analysis now)) \<and>
   (\<exists>a. interpret_response now rb = Inr a) \<and>
   (\<forall>e. analysis_try now rb = Inl e \<longrightarrow> interpret_response now rb = Inr (fallback_analysis now)) \<and>
   keyTerms (fallback_analysis now) =
     JArr [JObj [(''type'', JStr ''other''), (''value'', JStr ''Analysis completed''),
                 (''confidence'', JNum 50), (''location'', JStr ''Document'')]] \<and>
   field (riskAssessment (fallback_analysis now)) ''overallRisk'' = Some (JStr ''medium'') \<and>
   field (riskAssessment (fallback_analysis now)) ''totalScore'' = Some (JNum 50) \<and>
   (\<exists>r. field (riskAssessment (fallback_analysis now)) ''risks'' = Some (JArr [r]) \<and>
        field r ''severity'' = Some (JStr ''medium'')) \<and>
   (\<exists>c. clauseAnalysis (fallback_analysis now) = JArr [c] \<and>
        field c ''isStandard'' = Some (JBool True)) \<and>
   field (complianceCheck (fallback_analysis now)) ''overallCompliance'' = Some (JNum 50) \<and>
   field (complianceCheck (fallback_analysis now)) ''recommendations'' =
     Some (JArr [JStr ''Manual review recommended'']) \<and>
   confidenceScore (fallback_analysis now) = JNum 50"
proof -
  have a: "analysisText_of rb = Inr (Some (JStr raw)) \<and>
    (regex_match raw = None \<or> (\<exists>m. regex_match raw = Some m \<and> JSON_parse m = None)) \<longrightarrow>
      interpret_response now rb = Inr (fallback_analysis now)"
    by (auto simp: interpret_response_def analysis_try_text)
  have b: "\<exists>a. interpret_response now rb = Inr a" by (rule interpret_response_total)
  have c: "\<forall>e. analysis_try now rb = Inl e \<longrightarrow> interpret_response now rb = Inr (fallback_analysis now)"
    by (simp add: interpret_response_def)
  have d: "keyTerms (fallback_analysis now) =
     JArr [JObj [(''type'', JStr ''other''), (''value'', JStr ''Analysis completed''),
                 (''confidence'', JNum 50), (''location'', JStr ''Document'')]]"
    "confidenceScore (fallback_analysis now) = JNum 50"
    by (simp_all add: fallback_analysis_def)
  have e: "field (riskAssessment (fallback_analysis now)) ''overallRisk'' = Some (JStr ''medium'')"
    "field (riskAssessment (fallback_analysis now)) ''totalScore'' = Some (JNum 50)"
    "\<exists>r. field (riskAssessment (fallback_analysis now)) ''risks'' = Some (JArr [r]) \<and>
        field r ''severity'' = Some (JStr ''medium'')"
    by (simp_all add: fallback_analysis_def field_def own_property_def)
  have f: "\<exists>c. clauseAnalysis (fallback_analysis now) = JArr [c] \<and>
        field c ''isStandard'' = Some (JBool True)"
    "field (complianceCheck (fallback_analysis now)) ''overallCompliance'' = Some (JNum 50)"
    "field (complianceCheck (fallback_analysis now)) ''recommendations'' =
       Some (JArr [JStr ''Manual review recommended''])"
    by (simp_all add: fallback_analysis_def field_def own_property_def)
  show ?thesis using a b c d e f by blast
qed

text \<open>Both causes at concrete texts: prose without braces, and braces around text that
  is not JSON.\<close>

theorem fallback_when_no_json_witness:
  "analysisText_of (response_with_text ''I could not analyse this document.'') =
     Inr (Some (JStr ''I could not analyse this document.'')) \<and>
   regex_match ''I could not analyse this document.'' = None \<and>
   interpret_response ''t1'' (response_with_text ''I could not analyse this document.'') =
     Inr (fallback_analysis ''t1'') \<and>
   regex_match ''Summary: {risk: high}'' = Some ''{risk: high}'' \<and>
   JSON_parse ''{risk: high}'' = None \<and>
   interpret_response ''t1'' (response_with_text ''Summary: {risk: high}'') =
     Inr (fallback_analysis ''t1'')"
  using fallback_when_no_json[where rb = "response_with_text ''I could not analyse this document.''"
      and raw = "''I could not analyse this document.''" and now = "''t1''"]
    fallback_when_no_json[where rb = "response_with_text ''Summary: {risk: high}''"
      and raw = "''Summary: {risk: high}''" and now = "''t1''"]
  by (simp add: json_eval response_with_text_text)

section \<open>C3: mapping and defaulting of the six sections\<close>

text \<open>The claim says a section that is present and not null is mapped directly. An empty
  string is present and not null, yet the program replaces it by the default.\<close>

theorem sections_counterexample:
  \<open>regex_match ''{"keyTerms": "", "confidenceScore": 88}''
     = Some ''{"keyTerms": "", "confidenceScore": 88}'' \<and>
   JSON_parse ''{"keyTerms": "", "confidenceScore": 88}''
     = Some (JObj [(''keyTerms'', JStr []), (''confidenceScore'', JNum 88)]) \<and>
   JStr [] \<noteq> JNull \<and>
   interpret_response ''t1'' (response_with_text ''{"keyTerms": "", "confidenceScore": 88}'')
     = Inr ((all_defaults ''t1'')\<lparr>confidenceScore := JNum 88\<rparr>) \<and>
   keyTerms ((all_defaults ''t1'')\<lparr>confidenceScore := JNum 88\<rparr>) = JArr [] \<and>
   JArr [] \<noteq> JStr []\<close>
  by (simp add: json_eval interpret_response_def analysis_try_wrapped map_parsed_object
      own_property_def or_default_def all_defaults_def)

text \<open>C3, amended. When a JSON object is extracted and parsed, each section whose value is
  truthy (an object, an array, a non-empty string, a non-zero number or true) is mapped
  directly, and each section that is absent, null, false or the empty string is replaced
  by its named default, independently of the others; for the five structured sections the
  number zero is replaced as well. With all six sections truthy the result is the direct
  field mapping, and with only \<^verbatim>\<open>executiveSummary\<close> absent only that section is the
  default.\<close>

theorem sections_mapped_or_defaulted:
  assumes "analysisText_of rb = Inr (Some (JStr raw))"
    and "regex_match raw = Some m" and "JSON_parse m = Some (JObj ms)"
  shows "\<exists>a. interpret_response now rb = Inr a \<and>
    (\<forall>v. own_property ms ''keyTerms'' = Some v \<and> js_truthy v \<longrightarrow> keyTerms a = v) \<and>
    (falsy_not_zero (own_property ms ''keyTerms'') \<or> own_property ms ''keyTerms'' = Some (JNum 0)
       \<longrightarrow> keyTerms a = JArr []) \<and>
    (\<forall>v. own_property ms ''riskAssessment'' = Some v \<and> js_truthy v \<longrightarrow> riskAssessment a = v) \<and>
    (falsy_not_zero (own_property ms ''riskAssessment'') \<or>
       own_property ms ''riskAssessment'' = Some (JNum 0)
       \<longrightarrow> riskAssessment a =
            JObj [(''overallRisk'', JStr ''medium''), (''risks'', JArr []), (''totalScore'', JNum 50)]) \<and>
    (\<forall>v. own_property ms ''clauseAnalysis'' = Some v \<and> js_truthy v \<longrightarrow> clauseAnalysis a = v) \<and>
    (falsy_not_zero (own_property ms ''clauseAnalysis'') \<or>
       own_property ms ''clauseAnalysis'' = Some (JNum 0)
       \<longrightarrow> clauseAnalysis a = JArr []) \<and>
    (\<forall>v. own_property ms ''complianceCheck'' = Some v \<and> js_truthy v \<longrightarrow> complianceCheck a = v) \<and>
    (falsy_not_zero (own_property ms ''complianceCheck'') \<or>
       own_property ms ''complianceCheck'' = Some (JNum 0)
       \<longrightarrow> complianceCheck a =
            JObj [(''overallCompliance'', JNum 70), (''missingClauses'', JArr []),
                  (''nonStandardClauses'', JArr []), (''recommendations'', JArr [])]) \<and>
    (\<forall>v. own_property ms ''executiveSummary'' = Some v \<and> js_truthy v \<longrightarrow> executiveSummary a = v) \<and>
    (falsy_not_zero (own_property ms ''executiveSummary'') \<or>
       own_property ms ''executiveSummary'' = Some (JNum 0)
       \<longrightarrow> executiveSummary a =
            JObj [(''overview'', JStr ''Analysis completed''), (''keyHighlights'', JArr []),
                  (''majorConcerns'', JArr []), (''recommendation'', JStr ''Review recommended'')]) \<and>
    (\<forall>v. own_property ms ''confidenceScore'' = Some v \<and> js_truthy v \<longrightarrow> confidenceScore a = v) \<and>
    (falsy_not_zero (own_property ms ''confidenceScore'') \<longrightarrow> confidenceScore a = JNum 75) \<and>
    (\<forall>kt ra ca cc es cs.
       own_property ms ''keyTerms'' = Some kt \<and> js_truthy kt \<and>
       own_property ms ''riskAssessment'' = Some ra \<and> js_truthy ra \<and>
       own_property ms ''clauseAnalysis'' = Some ca \<and> js_truthy ca \<and>
       own_property ms ''complianceCheck'' = Some cc \<and> js_truthy cc \<and>
       own_property ms ''confidenceScore'' = Some cs \<and> js_truthy cs \<longrightarrow>
       (own_property ms ''executiveSummary'' = Some es \<and> js_truthy es \<longrightarrow>
          a = \<lparr>documentId = [], keyTerms = kt, riskAssessment = ra, clauseAnalysis = ca,
               complianceCheck = cc, executiveSummary = es, confidenceScore = cs,
               processedAt = now\<rparr>) \<and>
       (own_property ms ''executiveSummary'' = None \<longrightarrow>
          a = \<lparr>documentId = [], keyTerms = kt, riskAssessment = ra, clauseAnalysis = ca,
               complianceCheck = cc,
               executiveSummary =
                 JObj [(''overview'', JStr ''Analysis completed''), (''keyHighlights'', JArr []),
                       (''majorConcerns'', JArr []),
                       (''recommendation'', JStr ''Review recommended'')],
               confidenceScore = cs, processedAt = now\<rparr>))"
proof -
  let ?a = "\<lparr>documentId = [],
          keyTerms = or_default (own_property ms ''keyTerms'') (JArr []),
          riskAssessment = or_default (own_property ms ''riskAssessment'') default_riskAssessment,
          clauseAnalysis = or_default (own_property ms ''clauseAnalysis'') (JArr []),
          complianceCheck = or_default (own_property ms ''complianceCheck'') default_complianceCheck,
          executiveSummary = or_default (own_property ms ''executiveSummary'') default_executiveSummary,
          confidenceScore = or_default (own_property ms ''confidenceScore'') (JNum 75),
          processedAt = now\<rparr>"
  have r: "interpret_response now rb = Inr ?a"
    using assms by (rule interpret_parsed_object)
  have t: "\<And>k d v. own_property ms k = Some v \<and> js_truthy v \<longrightarrow> or_default (own_property ms k) d = v"
    by (simp add: or_default_truthy)
  have f: "\<And>k d. falsy_not_zero (own_property ms k) \<or> own_property ms k = Some (JNum 0)
      \<longrightarrow> or_default (own_property ms k) d = d"
    using or_default_falsy by blast
  have f': "\<And>k d. falsy_not_zero (own_property ms k) \<longrightarrow> or_default (own_property ms k) d = d"
    using or_default_falsy by blast
  show ?thesis
    apply (rule exI[of _ ?a])
    apply (simp only: r simp_thms ContractAnalysis.simps)
    apply (simp only: default_riskAssessment_def[symmetric]
        default_complianceCheck_def[symmetric] default_executiveSummary_def[symmetric])
    apply (intro conjI allI t f f')
    apply (simp add: or_default_def)
    done
qed

text \<open>The sample answer supplies two sections; the other four are defaults.\<close>

theorem sections_mapped_or_defaulted_witness:
  \<open>analysisText_of (response_with_text sample_answer) = Inr (Some (JStr sample_answer)) \<and>
   regex_match sample_answer
     = Some sample_object \<and>
   JSON_parse sample_object
     = Some (JObj sample_members) \<and>
   interpret_response ''t1'' (response_with_text
       sample_answer)
     = Inr ((all_defaults ''t1'')
         \<lparr>keyTerms := JArr [JObj [(''type'', JStr ''party''), (''value'', JStr ''Acme'')]],
          confidenceScore := JNum 88\<rparr>)\<close>
  using sections_mapped_or_defaulted[OF response_with_text_text sample_answer_match
      sample_object_parse, of "''t1''"]
    sample_answer_match sample_object_parse
  by (simp add: response_with_text_text
      interpret_parsed_object[OF response_with_text_text sample_answer_match sample_object_parse]
      sample_members_def own_property_def or_default_def all_defaults_def)

section \<open>C4: declared domains of the result\<close>

text \<open>The claim says every enumerated field and every score of a returned result is within
  its domain. A risk level outside the enumeration and a score of 120 pass through
  unchanged.\<close>

theorem conformance_counterexample:
  \<open>interpret_response ''t1'' (response_with_text
      ''{"riskAssessment": {"overallRisk": "severe", "risks": [], "totalScore": 120}}'')
     = Inr ((all_defaults ''t1'')\<lparr>riskAssessment :=
              JObj [(''overallRisk'', JStr ''severe''), (''risks'', JArr []),
                    (''totalScore'', JNum 120)]\<rparr>) \<and>
   \<not> one_of risk_levels (Some (JStr ''severe'')) \<and>
   \<not> is_score (Some (JNum 120)) \<and>
   \<not> is_ContractAnalysis ((all_defaults ''t1'')\<lparr>riskAssessment :=
              JObj [(''overallRisk'', JStr ''severe''), (''risks'', JArr []),
                    (''totalScore'', JNum 120)]\<rparr>)\<close>
  by (simp add: json_eval interpret_response_def analysis_try_wrapped map_parsed_object
      own_property_def or_default_def all_defaults_def is_ContractAnalysis_def
      is_RiskAssessment_def one_of_def risk_levels_def is_score_def field_def)

text \<open>C4, amended. The fallback result and every substituted default lie within the
  declared domains, but a section supplied by the model is neither validated nor coerced:
  the result has the declared shape exactly when every supplied (truthy) section has
  it.\<close>

theorem conformance_not_enforced:
  "is_ContractAnalysis (fallback_analysis now) \<and>
   is_ContractAnalysis (all_defaults now) \<and>
   (analysisText_of rb = Inr (Some (JStr raw)) \<and>
    regex_match raw = Some m \<and> JSON_parse m = Some (JObj ms) \<longrightarrow>
     (\<exists>a. interpret_response now rb = Inr a \<and>
        (is_ContractAnalysis a \<longleftrightarrow>
           (\<forall>v. own_property ms ''keyTerms'' = Some v \<and> js_truthy v
                  \<longrightarrow> is_array_of is_KeyTerm (Some v)) \<and>
           (\<forall>v. own_property ms ''riskAssessment'' = Some v \<and> js_truthy v
                  \<longrightarrow> is_RiskAssessment v) \<and>
           (\<forall>v. own_property ms ''clauseAnalysis'' = Some v \<and> js_truthy v
                  \<longrightarrow> is_array_of is_ClauseAnalysis (Some v)) \<and>
           (\<forall>v. own_property ms ''complianceCheck'' = Some v \<and> js_truthy v
                  \<longrightarrow> is_ComplianceResult v) \<and>
           (\<forall>v. own_property ms ''executiveSummary'' = Some v \<and> js_truthy v
                  \<longrightarrow> is_ExecutiveSummary v) \<and>
           (\<forall>v. own_property ms ''confidenceScore'' = Some v \<and> js_truthy v
                  \<longrightarrow> is_score (Some v)))))"
proof -
  have d: "is_array_of is_KeyTerm (Some (JArr []))" "is_RiskAssessment default_riskAssessment"
    "is_array_of is_ClauseAnalysis (Some (JArr []))" "is_ComplianceResult default_complianceCheck"
    "is_ExecutiveSummary default_executiveSummary" "is_score (Some (JNum 75))"
    using defaults_conform[of now] by (simp_all add: is_ContractAnalysis_def all_defaults_def)
  have "analysisText_of rb = Inr (Some (JStr raw)) \<and>
    regex_match raw = Some m \<and> JSON_parse m = Some (JObj ms) \<longrightarrow> ?thesis"
    using fallback_conforms[of now] defaults_conform[of now]
      or_default_conforms[of "\<lambda>j. is_array_of is_KeyTerm (Some j)", OF d(1)]
      or_default_conforms[of is_RiskAssessment, OF d(2)]
      or_default_conforms[of "\<lambda>j. is_array_of is_ClauseAnalysis (Some j)", OF d(3)]
      or_default_conforms[of is_ComplianceResult, OF d(4)]
      or_default_conforms[of is_ExecutiveSummary, OF d(5)]
      or_default_conforms[of "\<lambda>j. is_score (Some j)", OF d(6)]
    by (simp add: interpret_parsed_object is_ContractAnalysis_def)
  then show ?thesis using fallback_conforms[of now] defaults_conform[of now] by blast
qed

text \<open>The key term of the sample answer has no confidence and no location, and so has the
  result.\<close>

theorem conformance_not_enforced_witness:
  \<open>analysisText_of (response_with_text sample_answer) = Inr (Some (JStr sample_answer)) \<and>
   regex_match sample_answer
     = Some sample_object \<and>
   JSON_parse sample_object
     = Some (JObj sample_members) \<and>
   \<not> is_array_of is_KeyTerm
       (Some (JArr [JObj [(''type'', JStr ''party''), (''value'', JStr ''Acme'')]])) \<and>
   (\<exists>a. interpret_response ''t1'' (response_with_text
       sample_answer)
        = Inr a \<and> \<not> is_ContractAnalysis a)\<close>
proof -
  have n: "\<not> is_array_of is_KeyTerm
       (Some (JArr [JObj [(''type'', JStr ''party''), (''value'', JStr ''Acme'')]]))"
    by (simp add: is_array_of_def is_KeyTerm_def is_score_def field_def own_property_def)
  from conformance_not_enforced[where now = "''t1''" and rb = "response_with_text sample_answer"
      and raw = sample_answer and m = sample_object and ms = sample_members]
    response_with_text_text[of sample_answer] sample_answer_match sample_object_parse n
  show ?thesis
    by (auto simp: own_property_def sample_members_def)
qed

section \<open>C5: which failures set the failed status\<close>

text \<open>The claim says a failure of the final write is reported without setting the status
  to failed, so that the record may stay at processing. With the final write rejected
  and the store otherwise working, the handler writes the failed status and returns the
  same generic response as for any other failure.\<close>

theorem failed_write_counterexample:
  "\<not> get_fails write_down_env \<and> sample_table ''doc-1'' = Some sample_document \<and>
   fst (extract_text write_down_env sample_document) = Inr ''Hello'' \<and>
   analyzeContractWithBedrock write_down_env ''Hello'' = Inr (all_defaults ''t1'') \<and>
   update_completed_fails write_down_env \<and>
   handler write_down_env sample_table sample_event =
     (Inr (failure 500 ''Processing failed''),
      sample_table(''doc-1'' \<mapsto> sample_document\<lparr>status := Some ''failed''\<rparr>),
      [DynamoGet (JStr ''doc-1''), S3GetObject (Some ''documents/doc-1/nda.txt''),
       BedrockInvoke ''Hello'',
       DynamoUpdate (JStr ''doc-1'') (SetCompleted (all_defaults ''t1'') ''t2''),
       DynamoUpdate (JStr ''doc-1'') SetFailed]) \<and>
   handler write_down_env sample_table sample_event \<noteq>
     (Inl ServiceError, sample_table,
      [DynamoGet (JStr ''doc-1''), S3GetObject (Some ''documents/doc-1/nda.txt''),
       BedrockInvoke ''Hello'',
       DynamoUpdate (JStr ''doc-1'') (SetCompleted (all_defaults ''t1'') ''t2'')])"
proof -
  have a: "\<not> get_fails write_down_env" "\<not> update_failed_fails write_down_env"
    "update_completed_fails write_down_env" "now_persist write_down_env = ''t2''"
    by (simp_all add: write_down_env_def sample_env_def)
  have b: "sample_table ''doc-1'' = Some sample_document" by (simp add: sample_table_def)
  have x: "extract_text write_down_env sample_document =
      (Inr ''Hello'', [S3GetObject (Some ''documents/doc-1/nda.txt'')])"
    by (simp add: extract_text_def write_down_env_def sample_env_def sample_document_def)
  have c: "analyzeContractWithBedrock write_down_env raw = Inr (all_defaults ''t1'')" for raw
  proof -
    have "analyzeContractWithBedrock write_down_env raw = analyzeContractWithBedrock sample_env raw"
      by (simp add: analyzeContractWithBedrock_def write_down_env_def
          split: sum.splits option.splits)
    then show ?thesis by (simp add: sample_analysis)
  qed
  have p: "process_document write_down_env sample_table (JStr ''doc-1'') =
     (Inl ServiceError, sample_table,
      [DynamoGet (JStr ''doc-1''), S3GetObject (Some ''documents/doc-1/nda.txt''),
       BedrockInvoke ''Hello'',
       DynamoUpdate (JStr ''doc-1'') (SetCompleted (all_defaults ''t1'') ''t2'')])"
    by (simp add: process_document_def dynamo_get_def dynamo_update_def a b x c Let_def)
  have h: "handler write_down_env sample_table sample_event =
     (Inr (failure 500 ''Processing failed''),
      sample_table(''doc-1'' \<mapsto> sample_document\<lparr>status := Some ''failed''\<rparr>),
      [DynamoGet (JStr ''doc-1''), S3GetObject (Some ''documents/doc-1/nda.txt''),
       BedrockInvoke ''Hello'',
       DynamoUpdate (JStr ''doc-1'') (SetCompleted (all_defaults ''t1'') ''t2''),
       DynamoUpdate (JStr ''doc-1'') SetFailed])"
    using handler_valid_request[OF sample_event_valid, of write_down_env sample_table]
    by (simp add: p dynamo_update_def a b)
  show ?thesis using a b x c h by simp
qed

text \<open>C5, amended. Once the document has been read, a failure of text extraction, of the
  model invocation or of the final completed-write is handled in one and the same way:
  the handler's last call is an update that sets only the status to failed; if that
  update succeeds the record has status failed and the caller gets the generic 500
  response, and if it is rejected the table is unchanged and the exception leaves the
  handler.\<close>

theorem failures_attempt_failed_status:
  assumes "JSON_parse (body_or_default (eventBody ev)) = Some parsed"
    and "get_prop parsed ''documentId'' = Inr (Some (JStr k))"
    and "k \<noteq> []"
    and "\<not> get_fails e"
    and "tbl k = Some doc"
    and "(\<exists>err. fst (extract_text e doc) = Inl err) \<or>
         (\<exists>t. fst (extract_text e doc) = Inr t \<and>
              ((\<exists>err. analyzeContractWithBedrock e t = Inl err) \<or>
               ((\<exists>a. analyzeContractWithBedrock e t = Inr a) \<and> update_completed_fails e)))"
  shows "case handler e tbl ev of
           (res, tbl', cs) \<Rightarrow>
             cs \<noteq> [] \<and> last cs = DynamoUpdate (JStr k) SetFailed \<and>
             (if update_failed_fails e
              then res = Inl ServiceError \<and> tbl' = tbl
              else res = Inr (failure 500 ''Processing failed'') \<and>
                   tbl' = tbl(k \<mapsto> doc\<lparr>status := Some ''failed''\<rparr>))"
proof -
  have t: "js_truthy (JStr k)" using assms(3) by simp
  obtain err cs0 where p: "process_document e tbl (JStr k) = (Inl err, tbl, cs0)"
    using process_document_failure[of e tbl k doc, OF assms(4,5,6)] by blast
  show ?thesis
    using handler_valid_request[OF assms(1,2) t, of e tbl] assms(5)
    by (simp add: p dynamo_update_def)
qed

text \<open>With the model endpoint down the sample document ends at status failed.\<close>

theorem failures_attempt_failed_status_witness:
  "\<not> get_fails model_down_env \<and> sample_table ''doc-1'' = Some sample_document \<and>
   fst (extract_text model_down_env sample_document) = Inr ''Hello'' \<and>
   analyzeContractWithBedrock model_down_env ''Hello'' = Inl ServiceError \<and>
   \<not> update_failed_fails model_down_env \<and>
   fst (handler model_down_env sample_table sample_event) = Inr (failure 500 ''Processing failed'') \<and>
   fst (snd (handler model_down_env sample_table sample_event)) =
     sample_table(''doc-1'' \<mapsto> sample_document\<lparr>status := Some ''failed''\<rparr>)"
proof -
  have a: "\<not> get_fails model_down_env" "\<not> update_failed_fails model_down_env"
    by (simp_all add: model_down_env_def sample_env_def)
  have b: "sample_table ''doc-1'' = Some sample_document" by (simp add: sample_table_def)
  have c: "analyzeContractWithBedrock model_down_env ''Hello'' = Inl ServiceError"
    by (simp add: analyzeContractWithBedrock_def model_down_env_def sample_env_def)
  have d: "''doc-1'' \<noteq> []" by simp
  have f: "(\<exists>err. fst (extract_text model_down_env sample_document) = Inl err) \<or>
         (\<exists>t. fst (extract_text model_down_env sample_document) = Inr t \<and>
              ((\<exists>err. analyzeContractWithBedrock model_down_env t = Inl err) \<or>
               ((\<exists>a. analyzeContractWithBedrock model_down_env t = Inr a) \<and>
                update_completed_fails model_down_env)))"
    using model_down_extract c by simp
  from failures_attempt_failed_status[of sample_event _ "''doc-1''" model_down_env sample_table
      sample_document, OF sample_event_valid d a(1) b f] a b c model_down_extract
  show ?thesis by (auto split: prod.splits)
qed

section \<open>C6: the substring handed to the parser\<close>

text \<open>The claim says the substring ends at the brace matching the first opening brace.
  On a text with a second pair of braces after the object, the program's pattern runs to
  the last closing brace, the parser rejects it, and the result is the fallback, although
  the substring the depth scan selects parses.\<close>

theorem json_substring_counterexample:
  \<open>regex_match ''{"confidenceScore": 90} (see {notes})'' =
     Some ''{"confidenceScore": 90} (see {notes}'' \<and>
   spec_brace_depth_match ''{"confidenceScore": 90} (see {notes})'' =
     Some ''{"confidenceScore": 90}'' \<and>
   JSON_parse ''{"confidenceScore": 90}'' = Some (JObj [(''confidenceScore'', JNum 90)]) \<and>
   interpret_response ''t1'' (response_with_text ''{"confidenceScore": 90} (see {notes})'') =
     Inr (fallback_analysis ''t1'')\<close>
  by (simp add: spec_brace_depth_match_def json_eval interpret_response_def analysis_try_wrapped)

text \<open>C6, amended. The substring handed to the JSON parser begins at the first opening
  brace and ends at the last closing brace of the text (there is none when no closing
  brace follows the first opening one); when there is no such substring, or it does not
  parse, the result is the fallback.\<close>

theorem json_substring_first_to_last_brace:
  "regex_match raw =
     (let rest = dropWhile (\<lambda>c. c \<noteq> CHR ''{'') raw in
      if CHR ''}'' \<in> set rest
      then Some (rev (dropWhile (\<lambda>c. c \<noteq> CHR ''}'') (rev rest)))
      else None) \<and>
   (analysisText_of rb = Inr (Some (JStr raw)) \<longrightarrow>
    interpret_response now rb =
     (case regex_match raw of
        None \<Rightarrow> Inr (fallback_analysis now)
      | Some m \<Rightarrow>
          (case JSON_parse m of
             None \<Rightarrow> Inr (fallback_analysis now)
           | Some p \<Rightarrow>
               (case map_parsed now p of
                  Inl e \<Rightarrow> Inr (fallback_analysis now)
                | Inr a \<Rightarrow> Inr a))))"
  using regex_match_closed[of raw]
  by (simp add: interpret_response_def analysis_try_text split: option.splits sum.splits)

text \<open>In the sample answer the object is followed by prose without braces, so the
  substring is the object and the two supplied sections reach the result.\<close>

theorem json_substring_first_to_last_brace_witness:
  "analysisText_of (response_with_text sample_answer) = Inr (Some (JStr sample_answer)) \<and>
   regex_match sample_answer = Some sample_object \<and>
   interpret_response ''t1'' (response_with_text sample_answer) =
     Inr ((all_defaults ''t1'')
         \<lparr>keyTerms := JArr [JObj [(''type'', JStr ''party''), (''value'', JStr ''Acme'')]],
          confidenceScore := JNum 88\<rparr>)"
  using json_substring_first_to_last_brace[where rb = "response_with_text sample_answer"
      and raw = sample_answer and now = "''t1''"]
  by (simp add: response_with_text_text sample_answer_match sample_object_parse
      map_parsed_object sample_members_def own_property_def or_default_def all_defaults_def)

section \<open>C7: unknown document\<close>

text \<open>The claim says every invocation for a document id that is not in the store gets
  the not-found response and writes nothing. When the read of the table is rejected, the
  request for the unknown \<^verbatim>\<open>doc-9\<close> ends in the \<^verbatim>\<open>catch\<close>: the response is the generic
  500, and the status update is sent for that id.\<close>

theorem rejected_read_counterexample:
  "sample_table ''doc-9'' = None \<and>
   handler read_down_env sample_table unknown_event =
     (Inr (failure 500 ''Processing failed''),
      sample_table(''doc-9'' \<mapsto> empty_item\<lparr>status := Some ''failed''\<rparr>),
      [DynamoGet (JStr ''doc-9''), DynamoUpdate (JStr ''doc-9'') SetFailed]) \<and>
   handler read_down_env sample_table unknown_event \<noteq>
     (Inr (failure 404 ''Document not found''), sample_table, [DynamoGet (JStr ''doc-9'')]) \<and>
   (sample_table(''doc-9'' \<mapsto> empty_item\<lparr>status := Some ''failed''\<rparr>)) ''doc-9'' \<noteq>
     sample_table ''doc-9''"
proof -
  have a: "get_fails read_down_env" "\<not> update_failed_fails read_down_env"
    by (simp_all add: read_down_env_def sample_env_def)
  have b: "sample_table ''doc-9'' = None" by (simp add: sample_table_def)
  have p: "process_document read_down_env sample_table (JStr ''doc-9'') =
     (Inl ServiceError, sample_table, [DynamoGet (JStr ''doc-9'')])"
    by (simp add: process_document_def dynamo_get_def a)
  have h: "handler read_down_env sample_table unknown_event =
     (Inr (failure 500 ''Processing failed''),
      sample_table(''doc-9'' \<mapsto> empty_item\<lparr>status := Some ''failed''\<rparr>),
      [DynamoGet (JStr ''doc-9''), DynamoUpdate (JStr ''doc-9'') SetFailed])"
    using handler_valid_request[OF unknown_event_valid, of read_down_env sample_table]
    by (simp add: p dynamo_update_def a b)
  show ?thesis using b h by (simp add: failure_def)
qed

text \<open>C7, amended. A request naming a document id, a non-empty string, for which the read
  of the table is answered and finds no item gets the 404 response; the table is
  unchanged and the read is the only call.\<close>

theorem unknown_document_not_found:
  assumes "JSON_parse (body_or_default (eventBody ev)) = Some parsed"
    and "get_prop parsed ''documentId'' = Inr (Some (JStr k))"
    and "k \<noteq> []"
    and "\<not> get_fails e"
    and "tbl k = None"
  shows "handler e tbl ev =
           (Inr (failure 404 ''Document not found''), tbl, [DynamoGet (JStr k)])"
proof -
  have t: "js_truthy (JStr k)" using assms(3) by simp
  have p: "process_document e tbl (JStr k) =
      (Inr (failure 404 ''Document not found''), tbl, [DynamoGet (JStr k)])"
    using assms(4,5) by (simp add: process_document_def dynamo_get_def)
  show ?thesis
    using handler_valid_request[OF assms(1,2) t, of e tbl] by (simp add: p)
qed

text \<open>The sample table has no \<^verbatim>\<open>doc-9\<close>.\<close>

theorem unknown_document_not_found_witness:
  "JSON_parse (body_or_default (eventBody unknown_event)) =
     Some (JObj [(''documentId'', JStr ''doc-9'')]) \<and>
   get_prop (JObj [(''documentId'', JStr ''doc-9'')]) ''documentId'' = Inr (Some (JStr ''doc-9'')) \<and>
   ''doc-9'' \<noteq> [] \<and> \<not> get_fails sample_env \<and> sample_table ''doc-9'' = None \<and>
   handler sample_env sample_table unknown_event =
     (Inr (failure 404 ''Document not found''), sample_table, [DynamoGet (JStr ''doc-9'')])"
proof -
  have a: "JSON_parse (body_or_default (eventBody unknown_event)) =
     Some (JObj [(''documentId'', JStr ''doc-9'')])"
    by (simp add: unknown_event_def body_or_default_def unknown_event_parse)
  have b: "get_prop (JObj [(''documentId'', JStr ''doc-9'')]) ''documentId'' = Inr (Some (JStr ''doc-9''))"
    by (simp add: own_property_def)
  have c: "''doc-9'' \<noteq> []" by simp
  have d: "\<not> get_fails sample_env" by (simp add: sample_env_def)
  have e: "sample_table ''doc-9'' = None" by (simp add: sample_table_def)
  from unknown_document_not_found[of unknown_event _ "''doc-9''" sample_env sample_table, OF a b c d e]
    a b c d e
  show ?thesis by blast
qed

section \<open>C8: the text source\<close>

text \<open>C8. For a document whose content type is \<^verbatim>\<open>text/plain\<close> the text is the stored
  object read as a string and no OCR call is made. Otherwise the OCR service is called
  and the text is the line blocks in the order returned, joined by newline (stated here
  as: the text followed by a newline is every line followed by a newline); with no line
  blocks the text is empty, not an error.\<close>

theorem text_source_resolver:
  "(contentType doc = Some ''text/plain'' \<longrightarrow>
      extract_text e doc = (s3_object e (s3Key doc), [S3GetObject (s3Key doc)]) \<and>
      (\<forall>k. TextractDetect k \<notin> set (snd (extract_text e doc)))) \<and>
   (contentType doc \<noteq> Some ''text/plain'' \<and> textract_blocks e (s3Key doc) = Inr blocks \<longrightarrow>
      (\<exists>t. extract_text e doc = (Inr t, [TextractDetect (s3Key doc)]) \<and>
           (blocks = None \<longrightarrow> t = []) \<and>
           (\<forall>bs. blocks = Some bs \<longrightarrow>
              (filter (\<lambda>b. BlockType b = Some ''LINE'') bs = [] \<longrightarrow> t = []) \<and>
              (filter (\<lambda>b. BlockType b = Some ''LINE'') bs \<noteq> [] \<longrightarrow>
                 t @ [CHR 0x0A] =
                 concat (map (\<lambda>b. text_or_empty (Text b) @ [CHR 0x0A])
                           (filter (\<lambda>b. BlockType b = Some ''LINE'') bs))))))"
proof -
  have plain: "contentType doc = Some ''text/plain'' \<longrightarrow>
      extract_text e doc = (s3_object e (s3Key doc), [S3GetObject (s3Key doc)]) \<and>
      (\<forall>k. TextractDetect k \<notin> set (snd (extract_text e doc)))"
    by (simp add: extract_text_def)
  have j: "join_lines (map Text ls) @ [CHR 0x0A] =
      concat (map (\<lambda>b. text_or_empty (Text b) @ [CHR 0x0A]) ls)" if "ls \<noteq> []" for ls :: "block list"
    using join_lines_terminated[of "map Text ls"] that by (simp add: comp_def)
  have ocr: "contentType doc \<noteq> Some ''text/plain'' \<and> textract_blocks e (s3Key doc) = Inr blocks \<longrightarrow>
      extract_text e doc = (Inr (lines_text blocks), [TextractDetect (s3Key doc)])"
    by (simp add: extract_text_def)
  have l0: "lines_text None = []" by (simp add: lines_text_def)
  have l1: "lines_text (Some bs) = join_lines (map Text (filter (\<lambda>b. BlockType b = Some ''LINE'') bs))" for bs
    by (simp add: lines_text_def Let_def)
  show ?thesis
    using plain ocr l0 l1 j by auto
qed

text \<open>The stored text \<^verbatim>\<open>Hello\<close> is returned as it is; the scan yields its two lines.\<close>

theorem text_source_resolver_witness:
  "contentType sample_document = Some ''text/plain'' \<and>
   s3_object sample_env (s3Key sample_document) = Inr ''Hello'' \<and>
   extract_text sample_env sample_document =
     (Inr ''Hello'', [S3GetObject (Some ''documents/doc-1/nda.txt'')]) \<and>
   contentType sample_scan \<noteq> Some ''text/plain'' \<and>
   textract_blocks sample_env (s3Key sample_scan) = Inr (Some sample_blocks) \<and>
   extract_text sample_env sample_scan =
     (Inr (''This Agreement'' @ [CHR 0x0A] @ ''is made''),
      [TextractDetect (Some ''documents/doc-2/nda.pdf'')])"
  using text_source_resolver[of sample_document sample_env "Some sample_blocks"]
    text_source_resolver[of sample_scan sample_env "Some sample_blocks"]
  by (simp add: sample_document_def sample_scan_def sample_env_def sample_blocks_def
      extract_text_def lines_text_def)

section \<open>C9: what the caller receives on failure\<close>

text \<open>C9. A request body that is not JSON: the parse throws in the \<^verbatim>\<open>try\<close>, and the
  \<^verbatim>\<open>catch\<close> parses the same body again, so the exception leaves the handler and no
  response object is produced.\<close>

theorem malformed_body_escapes_handler:
  "handler e tbl \<lparr>eventBody = Some ''documentId=doc-1''\<rparr> = (Inl SyntaxError, tbl, [])"
  by (simp add: handler_def handler_try_def handler_catch_def body_or_default_def json_eval)

section \<open>C10: the result's document identifier\<close>

text \<open>C10. On every path (mapped, partially defaulted, or full fallback) the analysis
  result produced by the interpreter has the empty string as its \<^verbatim>\<open>documentId\<close>, and the
  handler never fills it in: the result returned to the caller and the result written by
  the completed-update both still carry the empty string.\<close>

theorem documentId_never_populated:
  "(\<exists>a. interpret_response now rb = Inr a \<and> documentId a = []) \<and>
   (case handler e tbl ev of
      (res, tbl', cs) \<Rightarrow>
        (\<forall>r a. res = Inr r \<and> data (body r) = Some a \<longrightarrow> documentId a = []) \<and>
        (\<forall>k a ts. DynamoUpdate k (SetCompleted a ts) \<in> set cs \<longrightarrow> documentId a = []))"
proof -
  obtain a where a: "interpret_response now rb = Inr a"
    using interpret_response_total by blast
  then have first: "\<exists>a. interpret_response now rb = Inr a \<and> documentId a = []"
    using interpret_response_documentId by blast
  obtain res tbl' cs where h: "handler e tbl ev = (res, tbl', cs)"
    by (cases "handler e tbl ev")
  have returned: "documentId x = []" if "res = Inr r" "data (body r) = Some x" for r x
    using handler_ok_response[of e tbl ev r tbl' cs x] h that analyze_documentId by blast
  have persisted: "documentId x = []" if "DynamoUpdate k (SetCompleted x ts) \<in> set cs" for k x ts
    using handler_completed_calls[OF h that] analyze_documentId by blast
  show ?thesis using first h returned persisted by auto
qed

text \<open>In the sample run the returned and the persisted result are the same value, with
  an empty identifier although the request named \<^verbatim>\<open>doc-1\<close>.\<close>

theorem documentId_never_populated_witness:
  "fst (handler sample_env sample_table sample_event) = Inr (ok_response (all_defaults ''t1'')) \<and>
   data (body (ok_response (all_defaults ''t1''))) = Some (all_defaults ''t1'') \<and>
   DynamoUpdate (JStr ''doc-1'') (SetCompleted (all_defaults ''t1'') ''t2'')
     \<in> set (snd (snd (handler sample_env sample_table sample_event))) \<and>
   documentId (all_defaults ''t1'') = []"
  using documentId_never_populated[of "''t1''" "JObj []" sample_env sample_table sample_event]
  by (simp add: sample_run ok_response_def)

end
